theory Spec2Isabelle
  imports Complex_Main
begin

section \<open>Exceptions\<close>

text \<open>
  Every \<^verbatim>\<open>raise\<close> of \<^verbatim>\<open>speclite/filters.py\<close> is a value: the exception class and
  which message it carries. The message texts of the source are represented by one
  constructor each, with the values the source formats into the text.
\<close>

datatype exc_class =
  ValueError | RuntimeError | UnitConversionError | IndexError | AttributeError | TypeError
  | NotModelled

datatype message =
    Invalid_wavelength
  | Must_be_1D
  | Minimum_length nat
  | Not_strictly_increasing
  | Inconsistent_function_units
  | Invalid_function
  | Arrays_must_have_same_length
  | Response_negative
  | Response_all_zero
  | Response_not_zero_on_both_sides
  | Invalid_metadata_dictionary
  | Metadata_missing_key string
  | Not_a_valid_identifier string
  | Invalid_value_type string
  | Invalid_integration_method string
  | Invalid_method string
  | Function_units_not_convertible
  | Do_not_cover_filter_response real real
  | Undersample_and_interpolate_is_False
  | Expected_values_along_axis nat
  | Must_specify_expected_units
  | Values_units_not_convertible
  | Not_convertible
  | Operands_could_not_be_broadcast
  | Value_out_of_interpolation_range
  | Index_out_of_bounds
  | Batch_of_spectra
  | None_has_no_attribute
  | Unsupported_operand

type_synonym exc = "exc_class \<times> message"

section \<open>Physical units\<close>

text \<open>
  The units library is external (astropy). A unit is a scale factor with the exponents
  of length, mass and time; \<^verbatim>\<open>u.to(v)\<close> is the factor between two units of the same
  dimension and raises \<^verbatim>\<open>UnitConversionError\<close> (here \<open>None\<close>) otherwise. Scales are
  relative to Angstrom, gram and second.
\<close>

datatype unit_tag = Unit (scale: real) (length_exp: int) (mass_exp: int) (time_exp: int)

definition same_dimension :: "unit_tag \<Rightarrow> unit_tag \<Rightarrow> bool" where
  "same_dimension u v \<longleftrightarrow>
     length_exp u = length_exp v \<and> mass_exp u = mass_exp v \<and> time_exp u = time_exp v"

definition unit_to :: "unit_tag \<Rightarrow> unit_tag \<Rightarrow> real option" where
  "unit_to u v = (if same_dimension u v then Some (scale u / scale v) else None)"

definition unit_mul :: "unit_tag \<Rightarrow> unit_tag \<Rightarrow> unit_tag" where
  "unit_mul u v =
     Unit (scale u * scale v) (length_exp u + length_exp v) (mass_exp u + mass_exp v)
       (time_exp u + time_exp v)"

definition unit_div :: "unit_tag \<Rightarrow> unit_tag \<Rightarrow> unit_tag" where
  "unit_div u v =
     Unit (scale u / scale v) (length_exp u - length_exp v) (mass_exp u - mass_exp v)
       (time_exp u - time_exp v)"

definition Angstrom :: unit_tag where
  "Angstrom = Unit 1 1 0 0"

definition nanometer :: unit_tag where
  "nanometer = Unit 10 1 0 0"

definition centimeter :: unit_tag where
  "centimeter = Unit (10 ^ 8) 1 0 0"

definition second :: unit_tag where
  "second = Unit 1 0 0 1"

definition erg :: unit_tag where
  "erg = Unit (10 ^ 16) 2 1 (- 2)"

definition dimensionless :: unit_tag where
  "dimensionless = Unit 1 0 0 0"

definition default_wavelength_unit :: unit_tag where
  "default_wavelength_unit = Angstrom"

definition default_flux_unit :: unit_tag where
  "default_flux_unit =
     unit_div (unit_div (unit_div erg (unit_mul centimeter centimeter)) second)
       default_wavelength_unit"

definition hc_constant_unit :: unit_tag where
  "hc_constant_unit = unit_mul erg default_wavelength_unit"

definition photon_weighted_unit :: unit_tag where
  "photon_weighted_unit =
     unit_div (unit_mul default_wavelength_unit default_wavelength_unit) hc_constant_unit"

section \<open>Arrays and the store\<close>

text \<open>
  Numbers are reals: the source's arrays hold floating point numbers, and rounding is
  not modelled; nor are arrays of integer type, into which numpy truncates what is
  assigned. The store is the list of the buffers allocated so far. An array object is
  a view of a buffer: where it starts and its shape, the data being the \<open>prod_list shape\<close>
  numbers from there on. Two array objects on the same buffer share their data, which
  is what \<^verbatim>\<open>np.asarray\<close> gives for an array or a Quantity (the docstring of
  \<^verbatim>\<open>validate_wavelength_array\<close>: no copying or allocation "if the input is already a
  numpy array or astropy Quantity"). The comment on line 615 says that
  \<^verbatim>\<open>np.asarray\<close> copies a response with units; numpy returns the plain array on the
  same buffer for every subclass of its arrays, and a Quantity is one.
\<close>

type_synonym heap = "real list list"

record ndarray =
  buf :: nat
  offset :: nat
  shape :: "nat list"

datatype pyobj =
    PyList "real list"
  | NdArray ndarray
  | Quantity ndarray unit_tag

definition contents :: "heap \<Rightarrow> ndarray \<Rightarrow> real list" where
  "contents h a = take (prod_list (shape a)) (drop (offset a) (h ! buf a))"

definition store :: "heap \<Rightarrow> ndarray \<Rightarrow> real list \<Rightarrow> heap" where
  "store h a xs =
     h[buf a := take (offset a) (h ! buf a) @ xs
                  @ drop (offset a + prod_list (shape a)) (h ! buf a)]"

text \<open>\<^verbatim>\<open>a *= c\<close>: the multiplication is done in the buffer the view \<open>a\<close> is on.\<close>

definition imul :: "heap \<Rightarrow> ndarray \<Rightarrow> real \<Rightarrow> heap" where
  "imul h a c = store h a (map (\<lambda>x. x * c) (contents h a))"

text \<open>
  \<^verbatim>\<open>np.asarray\<close>: a Python list is copied into a new buffer; an array is returned
  as it is; of a Quantity the plain array on the same buffer is returned.
\<close>

fun asarray :: "heap \<Rightarrow> pyobj \<Rightarrow> ndarray \<times> heap" where
  "asarray h (PyList xs) = (\<lparr>buf = length h, offset = 0, shape = [length xs]\<rparr>, h @ [xs])"
| "asarray h (NdArray a) = (a, h)"
| "asarray h (Quantity a u) = (a, h)"

text \<open>The attribute \<^verbatim>\<open>.unit\<close>: \<open>None\<close> stands for the \<^verbatim>\<open>AttributeError\<close>.\<close>

fun unit_of :: "pyobj \<Rightarrow> unit_tag option" where
  "unit_of (PyList xs) = None"
| "unit_of (NdArray a) = None"
| "unit_of (Quantity a u) = Some u"

definition diff :: "('a :: minus) list \<Rightarrow> 'a list" where
  "diff xs = map (\<lambda>(a, b). b - a) (zip xs (tl xs))"

section \<open>validate_wavelength_array\<close>

text \<open>
  Lines 323-335. The statements are in the source's order: the conversion factor is
  multiplied into \<^verbatim>\<open>wavelength_no_units\<close> in place before the three checks, and a
  \<^verbatim>\<open>UnitConversionError\<close> of \<^verbatim>\<open>unit.to\<close> is not caught.
\<close>

definition validate_wavelength_array :: "heap \<Rightarrow> pyobj \<Rightarrow> nat \<Rightarrow> (exc + ndarray) \<times> heap" where
  "validate_wavelength_array h wavelength min_length =
     (case asarray h wavelength of (wavelength_no_units, h1) \<Rightarrow>
        (case (case unit_of wavelength of
                 None \<Rightarrow> Inr h1
               | Some u \<Rightarrow>
                   (case unit_to u default_wavelength_unit of
                      None \<Rightarrow> Inl (UnitConversionError, Not_convertible)
                    | Some c \<Rightarrow> Inr (imul h1 wavelength_no_units c))) of
           Inl e \<Rightarrow> (Inl e, h1)
         | Inr h2 \<Rightarrow>
             if length (shape wavelength_no_units) \<noteq> 1 then (Inl (ValueError, Must_be_1D), h2)
             else if hd (shape wavelength_no_units) < min_length
               then (Inl (ValueError, Minimum_length min_length), h2)
             else if \<not> list_all (\<lambda>d. d > 0) (diff (contents h2 wavelength_no_units))
               then (Inl (ValueError, Not_strictly_increasing), h2)
             else (Inr wavelength_no_units, h2)))"

section \<open>Library functions: searchsorted, interp1d, trapz, argsort\<close>

text \<open>
  \<^verbatim>\<open>np.searchsorted(a, v)\<close> with the default \<^verbatim>\<open>side='left'\<close>: the leftmost position
  where \<open>v\<close> can be inserted into the sorted \<open>a\<close>, that is the number of leading entries
  below \<open>v\<close>.
\<close>

definition searchsorted :: "real list \<Rightarrow> real \<Rightarrow> nat" where
  "searchsorted a v = length (takeWhile (\<lambda>x. x < v) a)"

text \<open>\<^verbatim>\<open>np.where(mask)[0]\<close>: the positions of the true entries.\<close>

definition where_true :: "bool list \<Rightarrow> nat list" where
  "where_true flags = filter (\<lambda>i. flags ! i) [0..<length flags]"

text \<open>
  \<^verbatim>\<open>np.argsort\<close>: the positions of the entries in increasing order of the entries.
  Equal entries keep their order here; numpy's default sort leaves their order open.
\<close>

definition argsort :: "real list \<Rightarrow> nat list" where
  "argsort xs = map snd (sort_key fst (zip xs [0..<length xs]))"

text \<open>
  \<^verbatim>\<open>scipy.interpolate.interp1d(x, y, kind='linear', assume_sorted=True, ...)\<close> evaluated
  at one point: the segment is found with searchsorted, clipped to \<open>1 .. len(x) - 1\<close>;
  a point outside \<open>[x[0], x[-1]]\<close> raises when \<^verbatim>\<open>bounds_error\<close> is set and gives
  \<^verbatim>\<open>fill_value\<close> otherwise.
\<close>

definition linear_segment :: "real list \<Rightarrow> real list \<Rightarrow> real \<Rightarrow> real" where
  "linear_segment x y x_new =
     (let hi = max 1 (min (searchsorted x x_new) (length x - 1));
          lo = hi - 1;
          slope = (y ! hi - y ! lo) / (x ! hi - x ! lo)
      in slope * (x_new - x ! lo) + y ! lo)"

definition interp1d :: "real list \<Rightarrow> real list \<Rightarrow> bool \<Rightarrow> real \<Rightarrow> real \<Rightarrow> exc + real" where
  "interp1d x y bounds_error fill_value x_new =
     (if x_new < hd x \<or> x_new > last x
      then (if bounds_error then Inl (ValueError, Value_out_of_interpolation_range)
            else Inr fill_value)
      else Inr (linear_segment x y x_new))"

fun interp1d_array ::
  "real list \<Rightarrow> real list \<Rightarrow> bool \<Rightarrow> real \<Rightarrow> real list \<Rightarrow> exc + real list" where
  "interp1d_array x y bounds_error fill_value [] = Inr []"
| "interp1d_array x y bounds_error fill_value (w # ws) =
     (case interp1d x y bounds_error fill_value w of
        Inl e \<Rightarrow> Inl e
      | Inr v \<Rightarrow>
          (case interp1d_array x y bounds_error fill_value ws of
             Inl e \<Rightarrow> Inl e
           | Inr vs \<Rightarrow> Inr (v # vs)))"

text \<open>
  \<^verbatim>\<open>trapz(y, x)\<close>: \<^verbatim>\<open>(diff(x) * (y[1:] + y[:-1]) / 2.0).sum()\<close>. The module
  passes arrays of the same length; arrays of different lengths are refused here.
\<close>

type_synonym integrator = "real list \<Rightarrow> real list \<Rightarrow> exc + real"

definition trapz :: integrator where
  "trapz y x =
     (if length y \<noteq> length x then Inl (ValueError, Operands_could_not_be_broadcast)
      else Inr (sum_list (map (\<lambda>(d, (y1, y0)). d * (y1 + y0) / 2)
                  (zip (diff x) (zip (tl y) (butlast y))))))"

text \<open>
  What the module takes from outside: the numeric values of the constants
  \<^verbatim>\<open>_hc_constant\<close> and \<^verbatim>\<open>_ab_constant\<close> (computed by astropy) and Simpson's rule
  \<^verbatim>\<open>scipy.integrate.simps\<close>.
\<close>

record externals =
  hc_value :: real
  ab_value :: real
  simps :: integrator

definition filter_integration_methods :: "externals \<Rightarrow> string \<Rightarrow> integrator option" where
  "filter_integration_methods ext = map_of [(''trapz'', trapz), (''simps'', simps ext)]"

text \<open>Python slicing \<^verbatim>\<open>xs[start:stop]\<close>, negative positions counting from the end.\<close>

definition slice_index :: "nat \<Rightarrow> int \<Rightarrow> nat" where
  "slice_index n i = (if i < 0 then nat (max 0 (int n + i)) else min (nat i) n)"

definition py_slice :: "'a list \<Rightarrow> int \<Rightarrow> int \<Rightarrow> 'a list" where
  "py_slice xs start stop =
     (let a = slice_index (length xs) start; b = slice_index (length xs) stop
      in take (b - a) (drop a xs))"

section \<open>Callable spectra and tabulate_function_of_wavelength\<close>

text \<open>
  A value a Python function returns is a number or an array, with its unit when it is a
  Quantity. A callable is given by what it does on an array of wavelengths and on a
  single wavelength; the second argument is the unit of the wavelengths it is called
  with, \<open>None\<close> when it is called with plain numbers. Either call can raise.
\<close>

datatype num = Scalar real | Array "real list"

record callable =
  on_array :: "real list \<Rightarrow> unit_tag option \<Rightarrow> exc + (num \<times> unit_tag option)"
  on_scalar :: "real \<Rightarrow> unit_tag option \<Rightarrow> exc + (real \<times> unit_tag option)"

text \<open>
  The two loops of lines 402-441 and 451-490: \<open>first\<close> is \<^verbatim>\<open>i == 0\<close>, the units of the
  first value are remembered and every later value must agree with them.
\<close>

fun iterate_function ::
  "callable \<Rightarrow> unit_tag option \<Rightarrow> bool \<Rightarrow> unit_tag option \<Rightarrow> real list \<Rightarrow> real list
     \<Rightarrow> exc + (real list \<times> unit_tag option)" where
  "iterate_function f arg_unit first function_units function_values [] =
     Inr (function_values, function_units)"
| "iterate_function f arg_unit first function_units function_values (w # ws) =
     (case on_scalar f w arg_unit of
        Inl e \<Rightarrow> Inl e
      | Inr (v, value_unit) \<Rightarrow>
          if first then iterate_function f arg_unit False value_unit (function_values @ [v]) ws
          else if function_units = None then
            (case value_unit of
               Some new_units \<Rightarrow> Inl (RuntimeError, Inconsistent_function_units)
             | None \<Rightarrow>
                 iterate_function f arg_unit False function_units (function_values @ [v]) ws)
          else
            (case value_unit of
               None \<Rightarrow> Inl (RuntimeError, Inconsistent_function_units)
             | Some u \<Rightarrow>
                 if function_units \<noteq> Some u then Inl (RuntimeError, Inconsistent_function_units)
                 else iterate_function f arg_unit False function_units (function_values @ [v]) ws))"

text \<open>
  Lines 361-497: the four attempts in the source's order. The first two give up on any
  exception; the two loops let a \<^verbatim>\<open>RuntimeError\<close> through.
\<close>

definition tabulate_function_of_wavelength ::
  "callable \<Rightarrow> real list \<times> unit_tag option \<Rightarrow> exc + (num \<times> unit_tag option)" where
  "tabulate_function_of_wavelength function wavelength =
     (case (case snd wavelength of
              None \<Rightarrow> None
            | Some u \<Rightarrow> unit_to u default_wavelength_unit) of
        None \<Rightarrow> Inl (ValueError, Invalid_wavelength)
      | Some c \<Rightarrow>
          (let w = map (\<lambda>x. x * c) (fst wavelength) in
           case on_array function w (Some default_wavelength_unit) of
             Inr r \<Rightarrow> Inr r
           | Inl e1 \<Rightarrow>
               (case on_array function w None of
                  Inr r \<Rightarrow> Inr r
                | Inl e2 \<Rightarrow>
                    (case iterate_function function (Some default_wavelength_unit) True None [] w of
                       Inr (vs, fu) \<Rightarrow> Inr (Array vs, fu)
                     | Inl e3 \<Rightarrow>
                         if fst e3 = RuntimeError then Inl e3
                         else
                           (case iterate_function function None True None [] w of
                              Inr (vs, fu) \<Rightarrow> Inr (Array vs, fu)
                            | Inl e4 \<Rightarrow>
                                if fst e4 = RuntimeError then Inl e4
                                else Inl (ValueError, Invalid_function))))))"

section \<open>FilterResponse\<close>

text \<open>
  What a convolution returns: a plain number, or a Quantity (a number with its unit).
\<close>

datatype pyresult = Plain real | Qty real unit_tag

fun value_of :: "pyresult \<Rightarrow> real" where
  "value_of (Plain x) = x"
| "value_of (Qty x u) = x"

fun divide_results :: "pyresult \<Rightarrow> pyresult \<Rightarrow> pyresult" where
  "divide_results (Plain a) (Plain b) = Plain (a / b)"
| "divide_results (Qty a u) (Plain b) = Qty (a / b) u"
| "divide_results (Plain a) (Qty b v) = Qty (a / b) (unit_div dimensionless v)"
| "divide_results (Qty a u) (Qty b v) = Qty (a / b) (unit_div u v)"

datatype metaval = MStr string | MOther

datatype pymeta = Dict "(string \<times> metaval) list" | NotADict

text \<open>
  The object's attributes. \<open>filter_wavelength\<close> is \<^verbatim>\<open>_wavelength\<close> and \<open>filter_response\<close>
  is \<^verbatim>\<open>response\<close>, both after trimming; the record holds their contents (the response
  is only read after construction). The attribute \<^verbatim>\<open>interpolator\<close> is a function of
  these two. The registration in \<^verbatim>\<open>_filter_cache\<close> (line 672) is left out.
\<close>

record FilterResponse =
  filter_wavelength :: "real list"
  filter_response :: "real list"
  filter_meta :: "(string \<times> metaval) list"
  effective_wavelength :: pyresult
  ab_zeropoint :: pyresult
  filter_name :: string

text \<open>Lines 654-657: linear, \<^verbatim>\<open>bounds_error=False, fill_value=0.\<close>\<close>

definition interpolator :: "FilterResponse \<Rightarrow> real \<Rightarrow> exc + real" where
  "interpolator self x_new = interp1d (filter_wavelength self) (filter_response self) False 0 x_new"

text \<open>
  \<^verbatim>\<open>FilterResponse.__call__\<close>, lines 697-708: a wavelength or an array of them, with a
  unit or without. A unit that does not convert raises (only \<^verbatim>\<open>AttributeError\<close> is
  caught).
\<close>

definition FilterResponse_call :: "FilterResponse \<Rightarrow> num \<times> unit_tag option \<Rightarrow> exc + num" where
  "FilterResponse_call self wavelength =
     (case (case snd wavelength of
              None \<Rightarrow> Inr 1
            | Some u \<Rightarrow>
                (case unit_to u default_wavelength_unit of
                   None \<Rightarrow> Inl (UnitConversionError, Not_convertible)
                 | Some c \<Rightarrow> Inr c)) of
        Inl e \<Rightarrow> Inl e
      | Inr c \<Rightarrow>
          (case fst wavelength of
             Scalar w \<Rightarrow>
               (case interpolator self (w * c) of Inl e \<Rightarrow> Inl e | Inr r \<Rightarrow> Inr (Scalar r))
           | Array ws \<Rightarrow>
               (case interp1d_array (filter_wavelength self) (filter_response self) False 0
                       (map (\<lambda>w. w * c) ws) of
                  Inl e \<Rightarrow> Inl e
                | Inr rs \<Rightarrow> Inr (Array rs))))"

text \<open>
  \<^verbatim>\<open>integrand *= array\<close> for the values a function returned: a scalar is broadcast, an
  array must have the array's length.
\<close>

definition multiply_into :: "num \<Rightarrow> real list \<Rightarrow> exc + real list" where
  "multiply_into integrand xs =
     (case integrand of
        Scalar s \<Rightarrow> Inr (map (\<lambda>x. s * x) xs)
      | Array ys \<Rightarrow>
          if length ys = length xs then Inr (map (\<lambda>(y, x). y * x) (zip ys xs))
          else Inl (ValueError, Operands_could_not_be_broadcast))"

text \<open>
  \<^verbatim>\<open>convolve_with_function\<close>, lines 820-852. When \<open>units\<close> is given and the function
  has units, the conversion is only tried (\<^verbatim>\<open>converted\<close> is not used afterwards).
\<close>

definition convolve_with_function ::
  "externals \<Rightarrow> FilterResponse \<Rightarrow> callable \<Rightarrow> bool \<Rightarrow> unit_tag option \<Rightarrow> string
     \<Rightarrow> exc + pyresult" where
  "convolve_with_function ext self function photon_weighted units method =
     (case filter_integration_methods ext method of
        None \<Rightarrow> Inl (ValueError, Invalid_integration_method method)
      | Some integrator \<Rightarrow>
          (case tabulate_function_of_wavelength function
                  (filter_wavelength self, Some default_wavelength_unit) of
             Inl e \<Rightarrow> Inl e
           | Inr (integrand, func_units) \<Rightarrow>
               (case (case units of
                        None \<Rightarrow> Inr func_units
                      | Some un \<Rightarrow>
                          (case func_units of
                             None \<Rightarrow> Inr units
                           | Some fu \<Rightarrow>
                               (case unit_to fu un of
                                  None \<Rightarrow> Inl (ValueError, Function_units_not_convertible)
                                | Some converted \<Rightarrow> Inr func_units))) of
                  Inl e \<Rightarrow> Inl e
                | Inr func_units1 \<Rightarrow>
                    (case multiply_into integrand (filter_response self) of
                       Inl e \<Rightarrow> Inl e
                     | Inr integrand1 \<Rightarrow>
                         (let integrand2 =
                                (if photon_weighted
                                 then map (\<lambda>(y, w). y * (w / hc_value ext))
                                        (zip integrand1 (filter_wavelength self))
                                 else integrand1);
                              func_units2 =
                                (if photon_weighted
                                 then map_option
                                        (\<lambda>u. unit_mul u
                                           (unit_div default_wavelength_unit hc_constant_unit))
                                        func_units1
                                 else func_units1)
                          in case integrator integrand2 (filter_wavelength self) of
                               Inl e \<Rightarrow> Inl e
                             | Inr result \<Rightarrow>
                                 (case func_units2 of
                                    None \<Rightarrow> Inr (Plain result)
                                  | Some u \<Rightarrow>
                                      Inr (Qty result (unit_mul u default_wavelength_unit))))))))"

text \<open>
  The three functions the constructor convolves with: \<^verbatim>\<open>lambda wlen: wlen\<close>,
  \<^verbatim>\<open>lambda wlen: one\<close> with \<^verbatim>\<open>one = astropy.units.Quantity(1.)\<close>, and
  \<^verbatim>\<open>ab_reference_flux\<close> (lines 282-289), which needs wavelengths with units.
\<close>

definition identity_function :: callable where
  "identity_function = \<lparr>on_array = (\<lambda>w u. Inr (Array w, u)), on_scalar = (\<lambda>w u. Inr (w, u))\<rparr>"

definition one_function :: callable where
  "one_function =
     \<lparr>on_array = (\<lambda>w u. Inr (Scalar 1, Some dimensionless)),
      on_scalar = (\<lambda>w u. Inr (1, Some dimensionless))\<rparr>"

definition ab_flux :: "externals \<Rightarrow> real \<Rightarrow> real \<Rightarrow> real" where
  "ab_flux ext magnitude w = 10 powr (- 0.4 * magnitude) * ab_value ext / w ^ 2"

definition ab_reference_flux :: "externals \<Rightarrow> real \<Rightarrow> callable" where
  "ab_reference_flux ext magnitude =
     \<lparr>on_array = (\<lambda>w u.
        case (case u of None \<Rightarrow> None | Some v \<Rightarrow> unit_to v default_wavelength_unit) of
          None \<Rightarrow> Inl (ValueError, Invalid_wavelength)
        | Some c \<Rightarrow>
            Inr (Array (map (\<lambda>x. ab_flux ext magnitude (x * c)) w), Some default_flux_unit)),
      on_scalar = (\<lambda>w u.
        case (case u of None \<Rightarrow> None | Some v \<Rightarrow> unit_to v default_wavelength_unit) of
          None \<Rightarrow> Inl (ValueError, Invalid_wavelength)
        | Some c \<Rightarrow> Inr (ab_flux ext magnitude (w * c), Some default_flux_unit))\<rparr>"

text \<open>\<^verbatim>\<open>_name_pattern\<close>, line 238: \<^verbatim>\<open>^[a-zA-Z_][a-zA-Z0-9_]*\Z\<close>.\<close>

definition is_letter :: "char \<Rightarrow> bool" where
  "is_letter c =
     (let n = (of_char c :: nat) in (97 \<le> n \<and> n \<le> 122) \<or> (65 \<le> n \<and> n \<le> 90))"

definition is_digit :: "char \<Rightarrow> bool" where
  "is_digit c = (let n = (of_char c :: nat) in 48 \<le> n \<and> n \<le> 57)"

definition name_pattern_match :: "string \<Rightarrow> bool" where
  "name_pattern_match s =
     (case s of
        [] \<Rightarrow> False
      | c # cs \<Rightarrow>
          (is_letter c \<or> c = CHR ''_'')
          \<and> list_all (\<lambda>d. is_letter d \<or> is_digit d \<or> d = CHR ''_'') cs)"

text \<open>Lines 640-650, for one required key.\<close>

definition check_required :: "(string \<times> metaval) list \<Rightarrow> string \<Rightarrow> exc option" where
  "check_required meta required =
     (case map_of meta required of
        None \<Rightarrow> Some (ValueError, Metadata_missing_key required)
      | Some MOther \<Rightarrow> Some (ValueError, Invalid_value_type required)
      | Some (MStr s) \<Rightarrow>
          if name_pattern_match s then None else Some (ValueError, Not_a_valid_identifier required))"

definition meta_string :: "(string \<times> metaval) list \<Rightarrow> string \<Rightarrow> string" where
  "meta_string meta key = (case map_of meta key of Some (MStr s) \<Rightarrow> s | _ \<Rightarrow> [])"

text \<open>
  Lines 628-633: the positions of the positive responses, and the slice from one before
  the first to one after the last. The slice is taken only when it is shorter than the
  arrays.
\<close>

definition trim_bounds :: "real list \<Rightarrow> exc + (int \<times> int)" where
  "trim_bounds response =
     (let non_zero = where_true (map (\<lambda>r. r > 0) response) in
      if non_zero = [] then Inl (IndexError, Index_out_of_bounds)
      else Inr (int (hd non_zero) - 1, int (last non_zero) + 2))"

definition trim :: "int \<times> int \<Rightarrow> real list \<Rightarrow> real list" where
  "trim bounds xs =
     (if snd bounds - fst bounds < int (length xs) then py_slice xs (fst bounds) (snd bounds)
      else xs)"

text \<open>
  The rest of the constructor, lines 635-671, once the arrays are trimmed: the metadata
  checks, the effective wavelength and the zeropoint.
\<close>

definition finish_FilterResponse ::
  "externals \<Rightarrow> real list \<Rightarrow> real list \<Rightarrow> pymeta \<Rightarrow> exc + FilterResponse" where
  "finish_FilterResponse ext wl resp meta =
     (case meta of
        NotADict \<Rightarrow> Inl (ValueError, Invalid_metadata_dictionary)
      | Dict m \<Rightarrow>
          (case check_required m ''group_name'' of
             Some e \<Rightarrow> Inl e
           | None \<Rightarrow>
               (case check_required m ''band_name'' of
                  Some e \<Rightarrow> Inl e
                | None \<Rightarrow>
                    (let self = \<lparr>filter_wavelength = wl, filter_response = resp, filter_meta = m,
                                 effective_wavelength = Plain 0, ab_zeropoint = Plain 0,
                                 filter_name = []\<rparr>
                     in case convolve_with_function ext self identity_function True None ''trapz'' of
                          Inl e \<Rightarrow> Inl e
                        | Inr numer \<Rightarrow>
                            (case convolve_with_function ext self one_function True None ''trapz'' of
                               Inl e \<Rightarrow> Inl e
                             | Inr denom \<Rightarrow>
                                 (case convolve_with_function ext self (ab_reference_flux ext 0)
                                         True (Some default_flux_unit) ''trapz'' of
                                    Inl e \<Rightarrow> Inl e
                                  | Inr zeropoint \<Rightarrow>
                                      Inr (self\<lparr>effective_wavelength := divide_results numer denom,
                                                ab_zeropoint := zeropoint,
                                                filter_name :=
                                                  meta_string m ''group_name'' @ ''-''
                                                    @ meta_string m ''band_name''\<rparr>)))))))"

text \<open>
  \<^verbatim>\<open>FilterResponse.__init__\<close>, lines 614-672. The wavelengths go through
  \<^verbatim>\<open>validate_wavelength_array\<close> on the store; the response is a one-dimensional
  sequence of numbers.
\<close>

definition FilterResponse_init ::
  "externals \<Rightarrow> heap \<Rightarrow> pyobj \<Rightarrow> real list \<Rightarrow> pymeta \<Rightarrow> (exc + FilterResponse) \<times> heap" where
  "FilterResponse_init ext h wavelength response meta =
     (case validate_wavelength_array h wavelength 3 of
        (Inl e, h1) \<Rightarrow> (Inl e, h1)
      | (Inr a, h1) \<Rightarrow>
          (let wl = contents h1 a in
           if length wl \<noteq> length response then (Inl (ValueError, Arrays_must_have_same_length), h1)
           else if list_ex (\<lambda>r. r < 0) response then (Inl (ValueError, Response_negative), h1)
           else if list_all (\<lambda>r. r = 0) response then (Inl (ValueError, Response_all_zero), h1)
           else if \<not> (hd response = 0 \<and> last response = 0)
             then (Inl (ValueError, Response_not_zero_on_both_sides), h1)
           else
             (case trim_bounds response of
                Inl e \<Rightarrow> (Inl e, h1)
              | Inr bounds \<Rightarrow>
                  (finish_FilterResponse ext (trim bounds wl) (trim bounds response) meta, h1))))"

section \<open>FilterConvolution\<close>

text \<open>
  The attributes of a \<^verbatim>\<open>FilterConvolution\<close>; \<open>conv_response\<close> is \<^verbatim>\<open>response\<close> and
  \<open>conv_wavelength\<close> is \<^verbatim>\<open>_wavelength\<close>. The record holds the contents of the arrays
  when the constructor returns. A response given by name (line 1057) is loaded from a
  file and is outside the model: the response is a \<open>FilterResponse\<close>.

  In what follows \<open>hd\<close> and \<open>last\<close> are the elements \<^verbatim>\<open>[0]\<close> and \<^verbatim>\<open>[-1]\<close> of arrays
  that are not empty: the grid has passed the validation with at least two entries, and
  the constructor of the filter leaves at least three wavelengths (lemma
  \<open>FilterResponse_init_invariant\<close>).
\<close>

record FilterConvolution =
  conv_response :: FilterResponse
  conv_wavelength :: "real list"
  num_wavelength :: nat
  response_slice :: "nat \<times> nat"
  response_grid :: "real list"
  interpolate_wavelength :: "real list option"
  interpolate_response :: "real list option"
  interpolate_sort_order :: "nat list option"
  quad_wavelength :: "real list"
  quad_weight :: "real list option"
  input_units :: "unit_tag option"
  output_units :: "unit_tag option"

text \<open>Lines 1064-1066: \<^verbatim>\<open>under or over\<close>.\<close>

definition extrapolation_required :: "real list \<Rightarrow> real list \<Rightarrow> bool" where
  "extrapolation_required w rw \<longleftrightarrow> hd w > hd rw \<or> last w < last rw"

text \<open>
  Lines 1075-1081: the smallest slice of the grid \<open>w\<close> that covers the filter's
  wavelengths \<open>rw\<close>.
\<close>

definition smallest_slice :: "real list \<Rightarrow> real list \<Rightarrow> nat \<times> nat" where
  "smallest_slice w rw =
     (let start = (if hd w < hd rw then last (where_true (map (\<lambda>x. x \<le> hd rw) w)) else 0);
          stop = (if last w > last rw then 1 + hd (where_true (map (\<lambda>x. x \<ge> last rw) w))
                  else length w)
      in (start, stop))"

text \<open>
  Lines 1095-1099: the insertion positions of the filter's wavelengths after the first,
  which of their differences are zero, and the positions \<^verbatim>\<open>1 + np.where(undersampled)[0]\<close>.
\<close>

definition insert_index :: "real list \<Rightarrow> real list \<Rightarrow> int list" where
  "insert_index w rw = map (\<lambda>v. int (searchsorted w v)) (tl rw)"

definition undersampled_flags :: "real list \<Rightarrow> real list \<Rightarrow> bool list" where
  "undersampled_flags w rw = map (\<lambda>d. d = 0) (diff (insert_index w rw))"

definition undersampled_positions :: "real list \<Rightarrow> real list \<Rightarrow> nat list" where
  "undersampled_positions w rw = map (\<lambda>i. 1 + i) (where_true (undersampled_flags w rw))"

text \<open>Lines 1122-1125: the first and the last quadrature wavelength are overwritten.\<close>

definition replace_endpoints :: "real list \<Rightarrow> real list \<Rightarrow> real list" where
  "replace_endpoints quad rw =
     (let q1 = (if hd quad < hd rw then quad[0 := hd rw] else quad)
      in if last q1 > last rw then q1[length q1 - 1 := last rw] else q1)"

text \<open>Lines 1127-1142: the weights and the units.\<close>

definition weights_of :: "externals \<Rightarrow> bool \<Rightarrow> real list \<Rightarrow> real list option" where
  "weights_of ext photon_weighted quad =
     (if photon_weighted then Some (map (\<lambda>x. x / hc_value ext) quad) else None)"

definition output_units_of :: "bool \<Rightarrow> unit_tag option \<Rightarrow> unit_tag option" where
  "output_units_of photon_weighted units =
     (case units of
        None \<Rightarrow> None
      | Some u \<Rightarrow>
          Some (unit_mul u (if photon_weighted then photon_weighted_unit
                            else default_wavelength_unit)))"

text \<open>
  \<^verbatim>\<open>FilterConvolution.__init__\<close>, lines 1056-1142. \<open>view\<close> is the array
  \<^verbatim>\<open>self._wavelength\<close> after line 1086: the validated array or a slice of it, on the
  buffer \<^verbatim>\<open>validate_wavelength_array\<close> returned. When no interpolation is needed,
  \<^verbatim>\<open>self.quad_wavelength\<close> is that same array (line 1118), and the replacement of its
  endpoints is written to the buffer. With interpolation \<^verbatim>\<open>np.hstack\<close> makes a new
  array. Line 1089, \<^verbatim>\<open>self.response(self._wavelength)\<close>, is \<open>FilterResponse_call\<close> on a
  plain array: the interpolator at each wavelength.
\<close>

definition FilterConvolution_init ::
  "externals \<Rightarrow> heap \<Rightarrow> FilterResponse \<Rightarrow> pyobj \<Rightarrow> bool \<Rightarrow> bool \<Rightarrow> unit_tag option
     \<Rightarrow> (exc + FilterConvolution) \<times> heap" where
  "FilterConvolution_init ext h response wavelength photon_weighted interpolate units =
     (case validate_wavelength_array h wavelength 2 of
        (Inl e, h1) \<Rightarrow> (Inl e, h1)
      | (Inr a, h1) \<Rightarrow>
          (let w = contents h1 a; rw = filter_wavelength response in
           if extrapolation_required w rw
           then (Inl (ValueError, Do_not_cover_filter_response (hd rw) (last rw)), h1)
           else
             (let sl = smallest_slice w rw;
                  trimmed = (fst sl > 0 \<or> snd sl < length w);
                  view = (if trimmed
                          then a\<lparr>offset := offset a + fst sl, shape := [snd sl - fst sl]\<rparr>
                          else a);
                  w1 = contents h1 view
              in case interp1d_array rw (filter_response response) False 0 w1 of
                   Inl e \<Rightarrow> (Inl e, h1)
                 | Inr grid \<Rightarrow>
                     (let self = \<lparr>conv_response = response, conv_wavelength = w1,
                                  num_wavelength = length w, response_slice = sl,
                                  response_grid = grid, interpolate_wavelength = None,
                                  interpolate_response = None, interpolate_sort_order = None,
                                  quad_wavelength = w1,
                                  quad_weight = None, input_units = units,
                                  output_units = output_units_of photon_weighted units\<rparr>
                      in if list_ex (\<lambda>b. b) (undersampled_flags w1 rw) then
                           (if interpolate then
                              (let undersampled = undersampled_positions w1 rw;
                                   iw = map (\<lambda>i. rw ! i) undersampled;
                                   ir = map (\<lambda>i. filter_response response ! i) undersampled;
                                   stacked = w1 @ iw;
                                   order = argsort stacked;
                                   quad = replace_endpoints (map (\<lambda>i. stacked ! i) order) rw
                               in (Inr (self\<lparr>interpolate_wavelength := Some iw,
                                              interpolate_response := Some ir,
                                              interpolate_sort_order := Some order,
                                              quad_wavelength := quad,
                                              quad_weight := weights_of ext photon_weighted quad\<rparr>),
                                   h1))
                            else (Inl (ValueError, Undersample_and_interpolate_is_False), h1))
                         else
                           (let quad = replace_endpoints w1 rw
                            in (Inr (self\<lparr>conv_wavelength := quad,
                                          quad_wavelength := quad,
                                          quad_weight := weights_of ext photon_weighted quad\<rparr>),
                                store h1 view quad))))))"

text \<open>
  \<^verbatim>\<open>FilterConvolution.__call__\<close>, lines 1181-1295, for one spectrum: \<open>values\<close> is
  one-dimensional and \<^verbatim>\<open>axis\<close> is its only axis; a batch of spectra is outside the
  model and marked so. \<^verbatim>\<open>plot\<close> is \<^verbatim>\<open>False\<close>. \<open>view\<close> is \<^verbatim>\<open>values_no_units\<close> after
  line 1193, a slice of the array \<^verbatim>\<open>np.asarray(values)\<close>; line 1198 multiplies the
  conversion factor into it in place.
\<close>

definition FilterConvolution_call ::
  "externals \<Rightarrow> heap \<Rightarrow> FilterConvolution \<Rightarrow> pyobj \<Rightarrow> string \<Rightarrow> (exc + pyresult) \<times> heap" where
  "FilterConvolution_call ext h self vals method =
     (case filter_integration_methods ext method of
        None \<Rightarrow> (Inl (ValueError, Invalid_method method), h)
      | Some integrator \<Rightarrow>
          (case asarray h vals of (values_no_units, h1) \<Rightarrow>
             if length (shape values_no_units) \<noteq> 1 then (Inl (NotModelled, Batch_of_spectra), h1)
             else if hd (shape values_no_units) \<noteq> num_wavelength self
               then (Inl (ValueError, Expected_values_along_axis (length (conv_wavelength self))),
                     h1)
             else
               (let view = values_no_units
                      \<lparr>offset := offset values_no_units + fst (response_slice self),
                       shape := [snd (response_slice self) - fst (response_slice self)]\<rparr>
                in case (case unit_of vals of
                           None \<Rightarrow> Inr (h1, False)
                         | Some u \<Rightarrow>
                             (case input_units self of
                                None \<Rightarrow> Inl (ValueError, Must_specify_expected_units)
                              | Some iu \<Rightarrow>
                                  (case unit_to u iu of
                                     None \<Rightarrow> Inl (ValueError, Values_units_not_convertible)
                                   | Some c \<Rightarrow> Inr (imul h1 view c, True)))) of
                     Inl e \<Rightarrow> (Inl e, h1)
                   | Inr (h2, input_has_units) \<Rightarrow>
                       (let v = contents h2 view;
                            integrand = map (\<lambda>(x, r). x * r) (zip v (response_grid self))
                        in case (case interpolate_wavelength self of
                                   None \<Rightarrow> Inr integrand
                                 | Some iw \<Rightarrow>
                                     (case interp1d_array (conv_wavelength self) v True 0 iw of
                                        Inl e \<Rightarrow> Inl e
                                      | Inr interpolated_values \<Rightarrow>
                                          (case (interpolate_response self,
                                                 interpolate_sort_order self) of
                                             (Some ir, Some order) \<Rightarrow>
                                               (let stacked = integrand
                                                      @ map (\<lambda>(x, r). x * r)
                                                          (zip interpolated_values ir)
                                                in Inr (map (\<lambda>i. stacked ! i) order))
                                           | _ \<Rightarrow> Inl (AttributeError, None_has_no_attribute)))) of
                             Inl e \<Rightarrow> (Inl e, h2)
                           | Inr integrand1 \<Rightarrow>
                               (let integrand2 =
                                      (case quad_weight self of
                                         None \<Rightarrow> integrand1
                                       | Some qw \<Rightarrow> map (\<lambda>(x, q). x * q) (zip integrand1 qw))
                                in case integrator integrand2 (quad_wavelength self) of
                                     Inl e \<Rightarrow> (Inl e, h2)
                                   | Inr integral \<Rightarrow>
                                       (if input_has_units then
                                          (case output_units self of
                                             None \<Rightarrow> (Inl (TypeError, Unsupported_operand), h2)
                                           | Some ou \<Rightarrow> (Inr (Qty integral ou), h2))
                                        else (Inr (Plain integral), h2)))))))"

text \<open>\<^verbatim>\<open>convolve_with_array\<close>, lines 902-904.\<close>

definition convolve_with_array ::
  "externals \<Rightarrow> heap \<Rightarrow> FilterResponse \<Rightarrow> pyobj \<Rightarrow> pyobj \<Rightarrow> bool \<Rightarrow> bool \<Rightarrow> unit_tag option
     \<Rightarrow> string \<Rightarrow> (exc + pyresult) \<times> heap" where
  "convolve_with_array ext h self wavelength vals photon_weighted interpolate units method =
     (case FilterConvolution_init ext h self wavelength photon_weighted interpolate units of
        (Inl e, h1) \<Rightarrow> (Inl e, h1)
      | (Inr convolution, h1) \<Rightarrow> FilterConvolution_call ext h1 convolution vals method)"

text \<open>
  \<^verbatim>\<open>get_ab_maggies\<close>, lines 939-950. With \<^verbatim>\<open>wavelength=None\<close> the spectrum is called
  as a function; otherwise it is an array of values on the wavelengths given. The ratio
  is taken between the numbers, \<^verbatim>\<open>convolution.value\<close> when the convolution has units.
  (A zero divisor gives \<open>0\<close> here, as every division by zero in HOL; numpy gives
  \<^verbatim>\<open>inf\<close> or \<^verbatim>\<open>nan\<close>.)
\<close>

definition maggies_ratio :: "FilterResponse \<Rightarrow> pyresult \<Rightarrow> exc + real" where
  "maggies_ratio self convolution =
     (case ab_zeropoint self of
        Plain z \<Rightarrow> Inl (AttributeError, None_has_no_attribute)
      | Qty z u \<Rightarrow> Inr (value_of convolution / z))"


definition get_ab_maggies_array ::
  "externals \<Rightarrow> heap \<Rightarrow> FilterResponse \<Rightarrow> pyobj \<Rightarrow> pyobj \<Rightarrow> (exc + real) \<times> heap" where
  "get_ab_maggies_array ext h self spectrum wavelength =
     (case convolve_with_array ext h self wavelength spectrum True True (Some default_flux_unit)
             ''trapz'' of
        (Inl e, h1) \<Rightarrow> (Inl e, h1)
      | (Inr convolution, h1) \<Rightarrow> (maggies_ratio self convolution, h1))"

section \<open>Notions used in the statements\<close>

text \<open>
  An array object is in the store when its buffer exists and holds all its data; a
  Python list is a value of its own.
\<close>

definition array_in_store :: "heap \<Rightarrow> ndarray \<Rightarrow> bool" where
  "array_in_store h a \<longleftrightarrow>
     buf a < length h \<and> offset a + prod_list (shape a) \<le> length (h ! buf a)"

fun object_in_store :: "heap \<Rightarrow> pyobj \<Rightarrow> bool" where
  "object_in_store h (PyList xs) = True"
| "object_in_store h (NdArray a) = array_in_store h a"
| "object_in_store h (Quantity a u) = array_in_store h a"

text \<open>
  What the constructor establishes of the arrays of a \<open>FilterResponse\<close> (lemma
  \<open>FilterResponse_init_invariant\<close> below).
\<close>

definition filter_invariant :: "FilterResponse \<Rightarrow> bool" where
  "filter_invariant self \<longleftrightarrow>
     3 \<le> length (filter_wavelength self)
     \<and> sorted_wrt (<) (filter_wavelength self)
     \<and> length (filter_response self) = length (filter_wavelength self)"

text \<open>
  The part of the input grid \<open>w\<close> the constructor of \<open>FilterConvolution\<close> keeps:
  \<^verbatim>\<open>self._wavelength[self.response_slice]\<close>.
\<close>

definition restricted_grid :: "real list \<Rightarrow> real list \<Rightarrow> real list" where
  "restricted_grid w rw =
     (let sl = smallest_slice w rw in take (snd sl - fst sl) (drop (fst sl) w))"

text \<open>
  The specification's test: two consecutive interior wavelengths of the filter
  (positions \<open>1 .. length rw - 2\<close>) have the same insertion position in the grid \<open>g\<close>.
\<close>

definition interior_collision :: "real list \<Rightarrow> real list \<Rightarrow> bool" where
  "interior_collision g rw \<longleftrightarrow>
     list_ex (\<lambda>k. searchsorted g (rw ! k) = searchsorted g (rw ! (k + 1))) [1..<length rw - 2]"

text \<open>
  The specification's interpolation nodes: of the interior wavelengths of the filter,
  those whose predecessor is interior and has the same insertion position (all but the
  first of each run of collisions).
\<close>

definition all_but_first_of_runs :: "real list \<Rightarrow> real list \<Rightarrow> real list" where
  "all_but_first_of_runs g rw =
     map (\<lambda>k. rw ! k)
       (filter (\<lambda>k. searchsorted g (rw ! (k - 1)) = searchsorted g (rw ! k))
          [2..<length rw - 1])"

text \<open>
  The factor that takes a wavelength with the unit tag \<open>u\<close> to the default unit: \<open>1\<close>
  without a tag, none for a unit that does not convert.
\<close>

definition conversion_factor :: "unit_tag option \<Rightarrow> real option" where
  "conversion_factor u =
     (case u of None \<Rightarrow> Some 1 | Some v \<Rightarrow> unit_to v default_wavelength_unit)"

text \<open>The extra interpolation nodes of a plan: none when no interpolation is planned.\<close>

definition interpolation_nodes :: "FilterConvolution \<Rightarrow> real list" where
  "interpolation_nodes c = (case interpolate_wavelength c of None \<Rightarrow> [] | Some iw \<Rightarrow> iw)"


section \<open>Example inputs\<close>

text \<open>
  The constants to eight digits (erg Angstrom, and erg Angstrom / (cm2 s)). Simpson's
  rule is not used in the examples; the trapezoid rule stands in its place.
\<close>

definition example_externals :: externals where
  "example_externals =
     \<lparr>hc_value = 19864458 / 10 ^ 15, ab_value = 10885464 / 10 ^ 8, simps = trapz\<rparr>"

definition example_meta :: pymeta where
  "example_meta = Dict [(''group_name'', MStr ''example''), (''band_name'', MStr ''r'')]"

text \<open>
  The filter of the specification's example: response 0, 1, 0 at 5000, 6000, 7000
  Angstrom, as \<open>FilterResponse_init\<close> builds it (lemma \<open>triangle_filter_constructed\<close>).
\<close>

definition triangle_filter :: FilterResponse where
  "triangle_filter =
     \<lparr>filter_wavelength = [5000, 6000, 7000], filter_response = [0, 1, 0],
      filter_meta = [(''group_name'', MStr ''example''), (''band_name'', MStr ''r'')],
      effective_wavelength = Qty 6000 (Unit 1 1 0 0),
      ab_zeropoint = Qty (3023740000000 / 3310743) (Unit (1 / 10000000000000000) (- 2) 0 (- 1)),
      filter_name = ''example-r''\<rparr>"

text \<open>A filter with two interior wavelengths: response 0, 1, 1, 0.\<close>

definition plateau_filter :: FilterResponse where
  "plateau_filter =
     \<lparr>filter_wavelength = [5000, 6000, 6500, 7000], filter_response = [0, 1, 1, 0],
      filter_meta = [(''group_name'', MStr ''example''), (''band_name'', MStr ''r'')],
      effective_wavelength = Qty (192500 / 31) (Unit 1 1 0 0),
      ab_zeropoint = Qty (15874635000000 / 14346553) (Unit (1 / 10000000000000000) (- 2) 0 (- 1)),
      filter_name = ''example-r''\<rparr>"

text \<open>\<^verbatim>\<open>lambda wlen: c\<close>, a function that returns the plain number \<open>c\<close>.\<close>

definition constant_function :: "real \<Rightarrow> callable" where
  "constant_function c =
     \<lparr>on_array = (\<lambda>w u. Inr (Scalar c, None)), on_scalar = (\<lambda>w u. Inr (c, None))\<rparr>"

text \<open>
  The plan for the triangle filter on the grid 5000, 6000, 7000, unweighted, for values
  in the default flux unit (lemma \<open>triangle_plan_constructed\<close>).
\<close>

definition triangle_plan :: FilterConvolution where
  "triangle_plan =
     \<lparr>conv_response = triangle_filter, conv_wavelength = [5000, 6000, 7000],
      num_wavelength = 3, response_slice = (0, 3), response_grid = [0, 1, 0],
      interpolate_wavelength = None, interpolate_response = None,
      interpolate_sort_order = None, quad_wavelength = [5000, 6000, 7000],
      quad_weight = None, input_units = Some default_flux_unit,
      output_units = Some (unit_mul default_flux_unit default_wavelength_unit)\<rparr>"

text \<open>Flux per nanometer: a tenth of the default flux unit.\<close>

definition flux_per_nanometer :: unit_tag where
  "flux_per_nanometer =
     unit_div (unit_div (unit_div erg (unit_mul centimeter centimeter)) second) nanometer"

section \<open>Supporting lemmas\<close>

lemmas unit_defs = unit_to_def same_dimension_def default_wavelength_unit_def Angstrom_def
  default_flux_unit_def unit_div_def unit_mul_def erg_def centimeter_def second_def
  hc_constant_unit_def dimensionless_def nanometer_def photon_weighted_unit_def
  flux_per_nanometer_def

lemmas init_defs = FilterConvolution_init_def validate_wavelength_array_def contents_def diff_def
  extrapolation_required_def smallest_slice_def where_true_def interp1d_def linear_segment_def
  searchsorted_def undersampled_flags_def insert_index_def undersampled_positions_def argsort_def
  replace_endpoints_def weights_of_def output_units_of_def store_def Let_def

subsection \<open>The example filters are what the constructor builds\<close>

lemma triangle_filter_constructed:
  "FilterResponse_init example_externals [] (PyList [5000, 6000, 7000]) [0, 1, 0] example_meta
   = (Inr triangle_filter, [[5000, 6000, 7000]])"
  by (simp add: FilterResponse_init_def validate_wavelength_array_def contents_def diff_def
      trim_bounds_def where_true_def trim_def finish_FilterResponse_def example_meta_def
      check_required_def name_pattern_match_def is_letter_def is_digit_def
      convolve_with_function_def filter_integration_methods_def
      tabulate_function_of_wavelength_def identity_function_def one_function_def
      ab_reference_flux_def multiply_into_def trapz_def example_externals_def
      ab_flux_def meta_string_def unit_defs triangle_filter_def)

lemma plateau_filter_constructed:
  "FilterResponse_init example_externals [] (PyList [4000, 5000, 6000, 6500, 7000, 7500])
     [0, 0, 1, 1, 0, 0] example_meta
   = (Inr plateau_filter, [[4000, 5000, 6000, 6500, 7000, 7500]])"
  by (simp add: FilterResponse_init_def validate_wavelength_array_def contents_def diff_def
      trim_bounds_def where_true_def trim_def finish_FilterResponse_def example_meta_def
      check_required_def name_pattern_match_def is_letter_def is_digit_def
      convolve_with_function_def filter_integration_methods_def
      tabulate_function_of_wavelength_def identity_function_def one_function_def
      ab_reference_flux_def multiply_into_def trapz_def example_externals_def
      py_slice_def slice_index_def ab_flux_def meta_string_def unit_defs plateau_filter_def)

lemma triangle_filter_invariant: "filter_invariant triangle_filter"
  by (simp add: filter_invariant_def triangle_filter_def)

lemma plateau_filter_invariant: "filter_invariant plateau_filter"
  by (simp add: filter_invariant_def plateau_filter_def)

subsection \<open>The store and validate_wavelength_array\<close>

lemma diff_positive: "list_all (\<lambda>d. d > 0) (diff xs) \<longleftrightarrow> sorted_wrt (<) (xs :: real list)"
proof (induction xs rule: induct_list012)
  case 1
  then show ?case by (simp add: diff_def)
next
  case (2 x)
  then show ?case by (simp add: diff_def)
next
  case (3 x y zs)
  have "sorted_wrt (<) (x # y # zs) = (x < y \<and> sorted_wrt (<) (y # zs))"
    by (rule sorted_wrt2) (simp add: transp_on_def)
  with 3 show ?case by (simp add: diff_def)
qed

lemma contents_store:
  assumes "array_in_store h a" "length xs = prod_list (shape a)"
  shows "contents (store h a xs) a = xs"
  using assms by (simp add: contents_def store_def array_in_store_def)

lemma array_in_store_store:
  assumes "array_in_store h a" "length xs = prod_list (shape a)"
  shows "array_in_store (store h a xs) a"
  using assms by (auto simp add: store_def array_in_store_def)

lemma length_contents: "array_in_store h a \<Longrightarrow> length (contents h a) = prod_list (shape a)"
  by (auto simp add: contents_def array_in_store_def)

lemma contents_imul:
  "array_in_store h a \<Longrightarrow> contents (imul h a c) a = map (\<lambda>x. x * c) (contents h a)"
  by (simp add: imul_def contents_store length_contents)

lemma array_in_store_imul: "array_in_store h a \<Longrightarrow> array_in_store (imul h a c) a"
  by (simp add: imul_def array_in_store_store length_contents)

lemma asarray_in_store:
  "object_in_store h obj \<Longrightarrow> asarray h obj = (a, h1) \<Longrightarrow> array_in_store h1 a"
  by (cases obj) (auto simp add: array_in_store_def)

lemma validate_success:
  assumes "object_in_store h obj" "validate_wavelength_array h obj n = (Inr a, h1)"
  shows "array_in_store h1 a \<and> shape a = [length (contents h1 a)]
         \<and> n \<le> length (contents h1 a) \<and> sorted_wrt (<) (contents h1 a)"
proof -
  obtain a0 h0 where as: "asarray h obj = (a0, h0)" by (cases "asarray h obj")
  have in0: "array_in_store h0 a0" using asarray_in_store[OF assms(1) as] .
  from assms(2) as have a: "a = a0"
    by (auto simp add: validate_wavelength_array_def split: option.splits if_splits sum.splits)
  from assms(2) as have h1: "h1 = h0 \<or> (\<exists>c. h1 = imul h0 a0 c)"
    by (auto simp add: validate_wavelength_array_def split: option.splits if_splits sum.splits)
  then have in1: "array_in_store h1 a" using in0 a array_in_store_imul by auto
  from assms(2) as have sh: "length (shape a) = 1" "n \<le> hd (shape a)"
     "list_all (\<lambda>d. d > 0) (diff (contents h1 a))"
    by (auto simp add: validate_wavelength_array_def split: option.splits if_splits sum.splits)
  from sh(1) obtain k where k: "shape a = [k]" by (cases "shape a") auto
  with in1 have "length (contents h1 a) = k" by (simp add: length_contents)
  with k sh in1 show ?thesis by (simp add: diff_positive)
qed

text \<open>
  What \<^verbatim>\<open>validate_wavelength_array\<close> does to the store: nothing for a plain array,
  an allocation for a list, and the conversion of the caller's data for a Quantity.
\<close>

lemma validate_array_keeps_store:
  "validate_wavelength_array h (NdArray a) n = (r, h') \<Longrightarrow> h' = h"
  by (auto simp add: validate_wavelength_array_def split: if_splits)

lemma validate_list_allocates:
  "validate_wavelength_array h (PyList xs) n = (r, h') \<Longrightarrow> h' = h @ [xs]"
  by (auto simp add: validate_wavelength_array_def split: if_splits)

lemma validate_quantity_converts:
  assumes "array_in_store h a" "unit_to u default_wavelength_unit = Some c"
    and "validate_wavelength_array h (Quantity a u) n = (r, h')"
  shows "contents h' a = map (\<lambda>x. x * c) (contents h a)"
  using assms
  by (auto simp add: validate_wavelength_array_def contents_imul split: if_splits)

lemma validate_returns_input_array:
  "validate_wavelength_array h (Quantity a u) n = (Inr b, h') \<Longrightarrow> b = a"
  by (auto simp add: validate_wavelength_array_def split: if_splits option.splits)


lemma where_true_map: "where_true (map P xs) = filter (\<lambda>i. P (xs ! i)) [0..<length xs]"
  by (auto simp add: where_true_def intro: filter_cong)

lemma hd_less_last:
  assumes "sorted_wrt (<) (xs :: real list)" "2 \<le> length xs"
  shows "hd xs < last xs"
proof -
  from assms(2) have ne: "xs \<noteq> []" by auto
  have "xs ! 0 < xs ! (length xs - 1)"
    using sorted_wrt_nth_less[OF assms(1), of 0 "length xs - 1"] assms(2) by simp
  with ne show ?thesis by (simp add: hd_conv_nth last_conv_nth)
qed

lemma smallest_slice_facts:
  assumes srt: "sorted_wrt (<) w" and len: "2 \<le> length w" and lt: "hd rw < last rw"
    and cov: "\<not> extrapolation_required w rw"
  shows "fst (smallest_slice w rw) + 2 \<le> snd (smallest_slice w rw)
       \<and> snd (smallest_slice w rw) \<le> length w
       \<and> w ! fst (smallest_slice w rw) \<le> hd rw
       \<and> last rw \<le> w ! (snd (smallest_slice w rw) - 1)"
proof -
  from len have ne: "w \<noteq> []" by auto
  define S where "S = filter (\<lambda>i. w ! i \<le> hd rw) [0..<length w]"
  define T where "T = filter (\<lambda>i. w ! i \<ge> last rw) [0..<length w]"
  define start where "start = (if hd w < hd rw then last S else 0)"
  define stop where "stop = (if last w > last rw then 1 + hd T else length w)"
  have sl: "smallest_slice w rw = (start, stop)"
    by (simp add: smallest_slice_def where_true_map S_def T_def start_def stop_def)
  from cov have c1: "hd w \<le> hd rw" and c2: "last rw \<le> last w"
    by (auto simp add: extrapolation_required_def)
  have st: "start < length w \<and> w ! start \<le> hd rw"
  proof (cases "hd w < hd rw")
    case True
    then have "0 \<in> set S" using ne by (simp add: S_def hd_conv_nth)
    then have "S \<noteq> []" by auto
    then have "last S \<in> set S" by simp
    then show ?thesis using True by (simp add: start_def S_def)
  next
    case False
    then show ?thesis using c1 ne by (simp add: start_def hd_conv_nth)
  qed
  have sp: "0 < stop \<and> stop \<le> length w \<and> last rw \<le> w ! (stop - 1)"
  proof (cases "last w > last rw")
    case True
    then have "length w - 1 \<in> set T" using ne by (simp add: T_def last_conv_nth)
    then have "T \<noteq> []" by auto
    then have "hd T \<in> set T" by simp
    then show ?thesis using True by (simp add: stop_def T_def)
  next
    case False
    then show ?thesis using c2 ne by (simp add: stop_def last_conv_nth)
  qed
  have "w ! start < w ! (stop - 1)" using st sp lt by linarith
  have "start < stop - 1"
  proof (rule ccontr)
    assume "\<not> start < stop - 1"
    then have "stop - 1 = start \<or> stop - 1 < start" by auto
    then show False
    proof
      assume "stop - 1 = start"
      with \<open>w ! start < w ! (stop - 1)\<close> show False by simp
    next
      assume "stop - 1 < start"
      then have "w ! (stop - 1) < w ! start"
        using srt st by (intro sorted_wrt_nth_less) auto
      with \<open>w ! start < w ! (stop - 1)\<close> show False by simp
    qed
  qed
  with st sp sl show ?thesis by simp
qed


lemma contents_view:
  assumes "array_in_store h a" "shape a = [n]" "start + k \<le> n"
  shows "contents h (a\<lparr>offset := offset a + start, shape := [k]\<rparr>)
         = take k (drop start (contents h a))"
  using assms by (simp add: contents_def drop_take min_def add.commute)

lemma array_in_store_view:
  assumes "array_in_store h a" "shape a = [n]" "start + k \<le> n"
  shows "array_in_store h (a\<lparr>offset := offset a + start, shape := [k]\<rparr>)"
  using assms by (simp add: array_in_store_def)

lemma interp1d_array_fill:
  "interp1d_array x y False fill ws
   = Inr (map (\<lambda>w. if w < hd x \<or> w > last x then fill else linear_segment x y w) ws)"
  by (induction ws) (simp_all add: interp1d_def)



lemma filter_invariant_hd_last: "filter_invariant F \<Longrightarrow> hd (filter_wavelength F) < last (filter_wavelength F)"
  by (simp add: filter_invariant_def hd_less_last)

lemma restricted_view:
  assumes obj: "object_in_store h wavelength"
    and val: "validate_wavelength_array h wavelength 2 = (Inr a, h1)"
    and lt: "hd rw < last rw"
    and cov: "\<not> extrapolation_required (contents h1 a) rw"
  shows "contents h1
           (if fst (smallest_slice (contents h1 a) rw) > 0
                 \<or> snd (smallest_slice (contents h1 a) rw) < length (contents h1 a)
            then a\<lparr>offset := offset a + fst (smallest_slice (contents h1 a) rw),
                   shape := [snd (smallest_slice (contents h1 a) rw)
                               - fst (smallest_slice (contents h1 a) rw)]\<rparr>
            else a)
         = restricted_grid (contents h1 a) rw"
proof -
  define w where "w = contents h1 a"
  from validate_success[OF obj val]
  have v: "array_in_store h1 a" "shape a = [length w]" "2 \<le> length w" "sorted_wrt (<) w"
    by (simp_all add: w_def)
  from smallest_slice_facts[OF v(4) v(3) lt] cov
  have f: "fst (smallest_slice w rw) + 2 \<le> snd (smallest_slice w rw)"
     "snd (smallest_slice w rw) \<le> length w"
    by (simp_all add: w_def)
  show ?thesis
  proof (cases "fst (smallest_slice w rw) > 0 \<or> snd (smallest_slice w rw) < length w")
    case True
    have "contents h1 (a\<lparr>offset := offset a + fst (smallest_slice w rw),
                   shape := [snd (smallest_slice w rw) - fst (smallest_slice w rw)]\<rparr>)
          = take (snd (smallest_slice w rw) - fst (smallest_slice w rw))
              (drop (fst (smallest_slice w rw)) (contents h1 a))"
      using f by (intro contents_view[OF v(1) v(2)]) simp
    with True show ?thesis by (simp add: w_def restricted_grid_def Let_def)
  next
    case False
    then have "fst (smallest_slice w rw) = 0" "snd (smallest_slice w rw) = length w"
      using f by auto
    with False show ?thesis by (simp add: w_def restricted_grid_def Let_def)
  qed
qed

lemma FilterConvolution_init_covered:
  assumes obj: "object_in_store h wavelength"
    and val: "validate_wavelength_array h wavelength 2 = (Inr a, h1)"
    and inv: "filter_invariant response"
    and cov: "\<not> extrapolation_required (contents h1 a) (filter_wavelength response)"
  defines "w \<equiv> contents h1 a" and "rw \<equiv> filter_wavelength response"
  defines "g \<equiv> restricted_grid w rw"
  defines "iw \<equiv> map (\<lambda>i. rw ! i) (undersampled_positions g rw)"
  defines "quad \<equiv> replace_endpoints (map (\<lambda>i. (g @ iw) ! i) (argsort (g @ iw))) rw"
  shows "\<exists>view grid. FilterConvolution_init ext h response wavelength pw interp units =
     (if list_ex (\<lambda>b. b) (undersampled_flags g rw) then
        (if interp then
           (Inr \<lparr>conv_response = response, conv_wavelength = g, num_wavelength = length w,
                 response_slice = smallest_slice w rw, response_grid = grid,
                 interpolate_wavelength = Some iw,
                 interpolate_response =
                   Some (map (\<lambda>i. filter_response response ! i) (undersampled_positions g rw)),
                 interpolate_sort_order = Some (argsort (g @ iw)),
                 quad_wavelength = quad,
                 quad_weight = weights_of ext pw quad, input_units = units,
                 output_units = output_units_of pw units\<rparr>, h1)
         else (Inl (ValueError, Undersample_and_interpolate_is_False), h1))
      else
        (Inr \<lparr>conv_response = response, conv_wavelength = replace_endpoints g rw,
              num_wavelength = length w,
              response_slice = smallest_slice w rw, response_grid = grid,
              interpolate_wavelength = None, interpolate_response = None,
              interpolate_sort_order = None,
              quad_wavelength = replace_endpoints g rw,
              quad_weight = weights_of ext pw (replace_endpoints g rw), input_units = units,
              output_units = output_units_of pw units\<rparr>,
         store h1 view (replace_endpoints g rw)))"
proof -
  have lt: "hd rw < last rw" using inv by (simp add: rw_def filter_invariant_hd_last)
  note rv = restricted_view[OF obj val lt, unfolded rw_def, OF cov]
  show ?thesis
  proof (cases "fst (smallest_slice (contents h1 a) (filter_wavelength response)) > 0
                 \<or> snd (smallest_slice (contents h1 a) (filter_wavelength response))
                      < length (contents h1 a)")
    case True
    with rv have c: "contents h1
       (a\<lparr>offset := offset a + fst (smallest_slice (contents h1 a) (filter_wavelength response)),
          shape := [snd (smallest_slice (contents h1 a) (filter_wavelength response))
                     - fst (smallest_slice (contents h1 a) (filter_wavelength response))]\<rparr>)
       = restricted_grid (contents h1 a) (filter_wavelength response)"
      by simp
    show ?thesis
      unfolding FilterConvolution_init_def Let_def val
      using True cov
      by (simp add: c interp1d_array_fill
          w_def rw_def g_def iw_def quad_def) blast
  next
    case False
    with rv have c: "contents h1 a = restricted_grid (contents h1 a) (filter_wavelength response)"
      by simp
    show ?thesis
      unfolding FilterConvolution_init_def Let_def val
      using False cov
      by (simp add: c[symmetric] interp1d_array_fill
          w_def rw_def g_def iw_def quad_def) blast
  qed
qed


subsection \<open>The quadrature grid\<close>






subsection \<open>The sampling test\<close>

lemma diff_nth:
  fixes xs :: "int list"
  assumes "Suc j < length xs"
  shows "diff xs ! j = xs ! Suc j - xs ! j"
  using assms by (simp add: diff_def nth_tl)

lemma length_diff: "length (diff xs) = length xs - 1"
  by (simp add: diff_def)

lemma undersampled_flags_eq:
  "undersampled_flags g rw
   = map (\<lambda>j. searchsorted g (rw ! (j + 1)) = searchsorted g (rw ! (j + 2))) [0..<length rw - 2]"
proof (rule nth_equalityI)
  show "length (undersampled_flags g rw)
      = length (map (\<lambda>j. searchsorted g (rw ! (j + 1)) = searchsorted g (rw ! (j + 2)))
          [0..<length rw - 2])"
    by (simp add: undersampled_flags_def insert_index_def length_diff)
next
  fix j assume "j < length (undersampled_flags g rw)"
  then have j: "j + 2 < length rw"
    by (simp add: undersampled_flags_def insert_index_def length_diff)
  then have "Suc j < length (insert_index g rw)" by (simp add: insert_index_def)
  from diff_nth[OF this] j
  have "diff (insert_index g rw) ! j
        = int (searchsorted g (rw ! (j + 2))) - int (searchsorted g (rw ! (j + 1)))"
    by (simp add: insert_index_def nth_tl)
  with j show "undersampled_flags g rw ! j
      = map (\<lambda>j. searchsorted g (rw ! (j + 1)) = searchsorted g (rw ! (j + 2)))
          [0..<length rw - 2] ! j"
    by (auto simp add: undersampled_flags_def insert_index_def length_diff)
qed

lemma where_true_map_upt: "where_true (map f [0..<n]) = filter f [0..<n]"
  unfolding where_true_def by (rule filter_cong) simp_all

lemma undersampled_positions_eq:
  assumes "2 \<le> length rw"
  shows "undersampled_positions g rw
   = filter (\<lambda>k. searchsorted g (rw ! k) = searchsorted g (rw ! (k + 1))) [1..<length rw - 1]"
proof -
  define Q where "Q = (\<lambda>k. searchsorted g (rw ! k) = searchsorted g (rw ! (k + 1)))"
  have "where_true (undersampled_flags g rw) = filter (Q \<circ> Suc) [0..<length rw - 2]"
    by (simp add: undersampled_flags_eq where_true_map_upt Q_def comp_def)
  then have "undersampled_positions g rw = map Suc (filter (Q \<circ> Suc) [0..<length rw - 2])"
    by (simp add: undersampled_positions_def)
  also have "\<dots> = filter Q (map Suc [0..<length rw - 2])"
    by (simp only: filter_map)
  finally have e: "undersampled_positions g rw = filter Q (map Suc [0..<length rw - 2])" .
  have "Suc (length rw - 2) = length rw - 1" using assms by arith
  then have "map Suc [0..<length rw - 2] = [1..<length rw - 1]"
    by (simp add: map_Suc_upt)
  with e show ?thesis by (simp add: Q_def)
qed

lemma flagged_iff:
  "list_ex (\<lambda>b. b) (undersampled_flags g rw) \<longleftrightarrow> undersampled_positions g rw \<noteq> []"
proof -
  have "list_ex (\<lambda>b. b) fl \<longleftrightarrow> where_true fl \<noteq> []" for fl
  proof
    assume "list_ex (\<lambda>b. b) fl"
    then obtain b where "b \<in> set fl" "b" unfolding list_ex_iff by blast
    then obtain i where "i < length fl" "fl ! i" unfolding in_set_conv_nth by blast
    then have "i \<in> set (where_true fl)" by (simp add: where_true_def)
    then show "where_true fl \<noteq> []" by auto
  next
    assume "where_true fl \<noteq> []"
    then obtain i where "i \<in> set (where_true fl)" by (cases "where_true fl") auto
    then have i: "i < length fl" "fl ! i" by (simp_all add: where_true_def)
    from i(1) have "fl ! i \<in> set fl" by (rule nth_mem)
    with i(2) show "list_ex (\<lambda>b. b) fl" unfolding list_ex_iff by blast
  qed
  then show ?thesis by (simp add: undersampled_positions_def)
qed

lemma interior_collision_flagged:
  assumes "3 \<le> length rw" "interior_collision g rw"
  shows "list_ex (\<lambda>b. b) (undersampled_flags g rw)"
proof -
  from assms(2) obtain k where k: "k \<in> set [1..<length rw - 2]"
      "searchsorted g (rw ! k) = searchsorted g (rw ! (k + 1))"
    unfolding interior_collision_def list_ex_iff by blast
  moreover from k(1) have "k \<in> set [1..<length rw - 1]" by auto
  ultimately have "k \<in> set (undersampled_positions g rw)"
    using assms(1) by (simp add: undersampled_positions_eq)
  then show ?thesis by (auto simp add: flagged_iff)
qed


lemma strictly_increasing_nth_eq:
  assumes "sorted_wrt (<) (xs :: real list)" "i < length xs" "j < length xs" "xs ! i = xs ! j"
  shows "i = j"
proof -
  from assms(1) have "distinct xs" by (simp add: strict_sorted_iff)
  with assms(2-4) show ?thesis by (simp add: nth_eq_iff_index_eq)
qed

subsection \<open>Trimming the response\<close>

lemma filter_upt_hd_least:
  assumes "filter P [0..<n] \<noteq> []" "i < hd (filter P [0..<n])"
  shows "\<not> P i"
proof
  assume p: "P i"
  have "hd (filter P [0..<n]) \<in> set (filter P [0..<n])" using assms(1) by (rule hd_in_set)
  then have "hd (filter P [0..<n]) < n" by simp
  with assms(2) p have i: "i \<in> set (filter P [0..<n])" by simp
  have "sorted (filter P [0..<n])" by (simp add: sorted_wrt_filter)
  with i have "hd (filter P [0..<n]) \<le> i" by (cases "filter P [0..<n]") auto
  with assms(2) show False by simp
qed

lemma sorted_nat_le_last: "sorted xs \<Longrightarrow> x \<in> set xs \<Longrightarrow> (x :: nat) \<le> last xs"
  by (induction xs) (auto split: if_splits)

lemma filter_upt_last_greatest:
  assumes "filter P [0..<n] \<noteq> []" "last (filter P [0..<n]) < i" "i < n"
  shows "\<not> P i"
proof
  assume p: "P i"
  with assms(3) have i: "i \<in> set (filter P [0..<n])" by simp
  have "sorted (filter P [0..<n])" by (simp add: sorted_wrt_filter)
  then have "i \<le> last (filter P [0..<n])" using i by (rule sorted_nat_le_last)
  with assms(2) show False by simp
qed

text \<open>The positive responses of a valid response curve, and what the trimming keeps.\<close>

lemma trim_bounds_valid:
  assumes nn: "list_all (\<lambda>r. 0 \<le> r) response"
    and nz: "\<not> list_all (\<lambda>r. r = 0) response"
    and ends: "hd response = 0" "last response = 0"
  shows "\<exists>p q. trim_bounds response = Inr (int p - 1, int q + 2)
           \<and> 1 \<le> p \<and> p \<le> q \<and> q + 2 \<le> length response
           \<and> 0 < response ! p \<and> 0 < response ! q
           \<and> (\<forall>i < p. response ! i = 0)
           \<and> (\<forall>i. q < i \<and> i < length response \<longrightarrow> response ! i = 0)"
proof -
  define n where "n = length response"
  define P where "P = (\<lambda>i. 0 < response ! i)"
  define S where "S = filter P [0..<n]"
  have S: "where_true (map (\<lambda>r. r > 0) response) = S"
    by (simp add: where_true_map S_def P_def n_def)
  from nz obtain r where r: "r \<in> set response" "r \<noteq> 0" by (auto simp add: list_all_iff)
  then obtain j where j: "j < n" "response ! j = r" by (auto simp add: in_set_conv_nth n_def)
  from nn r have "0 < r" by (auto simp add: list_all_iff dest: bspec)
  with j have "j \<in> set S" by (simp add: S_def P_def)
  then have ne: "S \<noteq> []" by auto
  from j have rne: "response \<noteq> []" by (auto simp add: n_def)
  define p where "p = hd S"
  define q where "q = last S"
  have pS: "p \<in> set S" and qS: "q \<in> set S"
    unfolding p_def q_def using ne by (rule hd_in_set, rule last_in_set)
  then have pp: "p < n" "0 < response ! p" and qq: "q < n" "0 < response ! q"
    by (simp_all add: S_def P_def)
  have nonneg: "0 \<le> response ! i" if "i < n" for i
    using nn that by (simp add: list_all_length n_def)
  have before: "response ! i = 0" if "i < p" for i
  proof -
    from that pp have "i < n" by simp
    moreover have "\<not> P i" using filter_upt_hd_least[of P n i] ne that by (simp add: S_def p_def)
    ultimately show ?thesis using nonneg[of i] by (simp add: P_def)
  qed
  have after: "response ! i = 0" if "q < i" "i < n" for i
  proof -
    have "\<not> P i" using filter_upt_last_greatest[of P n i] ne that by (simp add: S_def q_def)
    then show ?thesis using nonneg[of i] that by (simp add: P_def)
  qed
  have "response ! 0 = 0" using ends(1) rne by (simp add: hd_conv_nth)
  with pp have p1: "1 \<le> p" by (cases p) auto
  have "response ! (n - 1) = 0" using ends(2) rne by (simp add: last_conv_nth n_def)
  with qq have "q \<noteq> n - 1" by auto
  with qq have q2: "q + 2 \<le> n" by auto
  have "sorted S" by (simp add: S_def sorted_wrt_filter)
  with qS have "p \<le> q" unfolding p_def q_def
    by (metis ne hd_in_set sorted_nat_le_last)
  moreover have "trim_bounds response = Inr (int p - 1, int q + 2)"
    using ne by (simp add: trim_bounds_def S p_def q_def)
  ultimately show ?thesis using p1 q2 pp qq before after unfolding n_def by blast
qed

lemma trim_eq:
  assumes "1 \<le> p" "p \<le> q" "q + 2 \<le> length xs"
  shows "trim (int p - 1, int q + 2) xs = take (q + 3 - p) (drop (p - 1) xs)"
proof (cases "int q + 2 - (int p - 1) < int (length xs)")
  case True
  have "slice_index (length xs) (int p - 1) = p - 1"
    using assms by (auto simp add: slice_index_def)
  moreover have "slice_index (length xs) (int q + 2) = q + 2"
    using assms by (auto simp add: slice_index_def nat_add_distrib)
  moreover have "q + 2 - (p - 1) = q + 3 - p" using assms by arith
  ultimately show ?thesis using True by (simp add: trim_def py_slice_def)
next
  case False
  with assms have "p = 1" "q + 2 = length xs" by auto
  with False show ?thesis by (simp add: trim_def)
qed

subsection \<open>The constructor of FilterResponse\<close>

lemma convolve_with_function_succeeds:
  assumes "length (filter_response self) = length (filter_wavelength self)"
  shows "(\<exists>r. convolve_with_function ext self identity_function True None ''trapz'' = Inr r)
       \<and> (\<exists>r. convolve_with_function ext self one_function True None ''trapz'' = Inr r)
       \<and> (\<exists>r. convolve_with_function ext self (ab_reference_flux ext 0) True
                 (Some default_flux_unit) ''trapz'' = Inr r)"
  using assms
  by (simp add: convolve_with_function_def filter_integration_methods_def
      tabulate_function_of_wavelength_def identity_function_def one_function_def
      ab_reference_flux_def unit_to_def same_dimension_def multiply_into_def trapz_def Let_def)

lemma finish_FilterResponse_fields:
  assumes "finish_FilterResponse ext wl resp meta = Inr self"
  shows "filter_wavelength self = wl \<and> filter_response self = resp"
  using assms
  by (auto simp add: finish_FilterResponse_def Let_def
      split: pymeta.splits option.splits sum.splits)

lemma finish_FilterResponse_succeeds:
  assumes "length resp = length wl"
    and "check_required m ''group_name'' = None" "check_required m ''band_name'' = None"
  shows "\<exists>self. finish_FilterResponse ext wl resp (Dict m) = Inr self"
proof -
  define s0 where "s0 = \<lparr>filter_wavelength = wl, filter_response = resp, filter_meta = m,
                         effective_wavelength = Plain 0, ab_zeropoint = Plain 0,
                         filter_name = []\<rparr>"
  have l: "length (filter_response s0) = length (filter_wavelength s0)"
    using assms(1) by (simp add: s0_def)
  from convolve_with_function_succeeds[OF l, of ext]
  obtain numer denom zp
    where n: "convolve_with_function ext s0 identity_function True None ''trapz'' = Inr numer"
      and d: "convolve_with_function ext s0 one_function True None ''trapz'' = Inr denom"
      and z: "convolve_with_function ext s0 (ab_reference_flux ext 0) True
                (Some default_flux_unit) ''trapz'' = Inr zp"
    by blast
  show ?thesis
    using assms(2,3) n d z
    by (simp add: finish_FilterResponse_def Let_def s0_def[symmetric])
qed

lemma FilterResponse_call_plain_array:
  "FilterResponse_call self (Array ws, None)
   = (case interp1d_array (filter_wavelength self) (filter_response self) False 0 ws of
        Inl e \<Rightarrow> Inl e
      | Inr rs \<Rightarrow> Inr (Array rs))"
  by (simp add: FilterResponse_call_def)

lemma FilterResponse_init_invariant:
  assumes obj: "object_in_store h wavelength"
    and ok: "FilterResponse_init ext h wavelength response meta = (Inr self, h')"
  shows "filter_invariant self"
proof -
  obtain r h1 where v: "validate_wavelength_array h wavelength 3 = (r, h1)"
    by (cases "validate_wavelength_array h wavelength 3")
  from ok v obtain a where a: "r = Inr a"
    by (cases r) (auto simp add: FilterResponse_init_def)
  note val = v[unfolded a]
  from ok val obtain bounds
    where len: "length (contents h1 a) = length response"
      and neg: "\<not> list_ex (\<lambda>r. r < 0) response"
      and nz: "\<not> list_all (\<lambda>r. r = 0) response"
      and ends: "hd response = 0" "last response = 0"
      and tb: "trim_bounds response = Inr bounds"
      and fin: "finish_FilterResponse ext (trim bounds (contents h1 a)) (trim bounds response) meta
                = Inr self"
    by (auto simp add: FilterResponse_init_def Let_def split: if_splits sum.splits)
  from neg have nn: "list_all (\<lambda>r. 0 \<le> r) response"
    by (auto simp add: list_all_iff list_ex_iff not_less)
  from trim_bounds_valid[OF nn nz ends] tb obtain p q
    where b: "bounds = (int p - 1, int q + 2)"
      and pq: "1 \<le> p" "p \<le> q" "q + 2 \<le> length response"
    by auto
  from finish_FilterResponse_fields[OF fin] b pq len
  have f: "filter_wavelength self = take (q + 3 - p) (drop (p - 1) (contents h1 a))"
    "filter_response self = take (q + 3 - p) (drop (p - 1) response)"
    by (simp_all add: trim_eq)
  from validate_success[OF obj val] have "sorted_wrt (<) (contents h1 a)" by simp
  then have "sorted_wrt (<) (filter_wavelength self)"
    by (simp add: f sorted_wrt_take sorted_wrt_drop)
  moreover have "3 \<le> length (filter_wavelength self)" using pq len by (simp add: f)
  moreover have "length (filter_response self) = length (filter_wavelength self)"
    using pq len by (simp add: f)
  ultimately show ?thesis by (simp add: filter_invariant_def)
qed

subsection \<open>Functions that return units\<close>






subsection \<open>Evaluation and the store\<close>

text \<open>An evaluation with a plain array of values leaves the store as it is.\<close>

lemma FilterConvolution_call_array_keeps_store:
  "FilterConvolution_call ext h c (NdArray a) method = (r, h') \<Longrightarrow> h' = h"
  by (auto simp add: FilterConvolution_call_def Let_def split: if_splits option.splits sum.splits prod.splits)

text \<open>
  What the conversion in place does to a caller who convolves twice with the same
  wavelengths in nanometers: the second call finds them multiplied by ten once more and
  refuses the grid.
\<close>

lemma convolve_with_array_twice:
  "convolve_with_array example_externals [[500, 600, 700], [1, 1, 1]] triangle_filter
     (Quantity \<lparr>buf = 0, offset = 0, shape = [3]\<rparr> nanometer)
     (NdArray \<lparr>buf = 1, offset = 0, shape = [3]\<rparr>) False False None ''trapz''
   = (Inr (Plain 1000), [[5000, 6000, 7000], [1, 1, 1]])
   \<and> convolve_with_array example_externals [[5000, 6000, 7000], [1, 1, 1]] triangle_filter
       (Quantity \<lparr>buf = 0, offset = 0, shape = [3]\<rparr> nanometer)
       (NdArray \<lparr>buf = 1, offset = 0, shape = [3]\<rparr>) False False None ''trapz''
     = (Inl (ValueError, Do_not_cover_filter_response 5000 7000),
        [[50000, 60000, 70000], [1, 1, 1]])"
  by (simp add: convolve_with_array_def init_defs imul_def unit_defs triangle_filter_def
      FilterConvolution_call_def filter_integration_methods_def trapz_def)

subsection \<open>The example plan\<close>

lemma triangle_plan_constructed:
  "FilterConvolution_init example_externals [[10, 10, 10]] triangle_filter
     (PyList [5000, 6000, 7000]) False False (Some default_flux_unit)
   = (Inr triangle_plan, [[10, 10, 10], [5000, 6000, 7000]])"
  by (simp add: init_defs triangle_filter_def triangle_plan_def)

section \<open>The claims\<close>

text \<open>
  C1, as amended. The input is validated and covers the filter; interpolation is
  allowed, so the construction succeeds. Insertion positions are taken in the
  restricted grid. The plan has interpolation nodes whenever two consecutive interior
  wavelengths of the filter have the same insertion position. Every node is an interior
  wavelength of the filter that has the insertion position of the next wavelength of
  the filter. An interior wavelength whose successor is interior too is a node exactly
  when the two have the same insertion position: of a run of colliding interior
  wavelengths all but the last are nodes.
\<close>

theorem interpolation_nodes_all_but_last:
  assumes obj: "object_in_store h wavelength"
    and val: "validate_wavelength_array h wavelength 2 = (Inr a, h1)"
    and inv: "filter_invariant response"
    and cov: "\<not> extrapolation_required (contents h1 a) (filter_wavelength response)"
  shows "\<exists>c h'. FilterConvolution_init ext h response wavelength pw True units = (Inr c, h')
     \<and> (interior_collision (restricted_grid (contents h1 a) (filter_wavelength response))
           (filter_wavelength response)
        \<longrightarrow> interpolate_wavelength c \<noteq> None)
     \<and> (interpolate_wavelength c \<noteq> None \<longrightarrow> interpolation_nodes c \<noteq> [])
     \<and> (\<forall>x \<in> set (interpolation_nodes c).
           \<exists>k. 1 \<le> k \<and> k + 1 < length (filter_wavelength response)
               \<and> x = filter_wavelength response ! k
               \<and> searchsorted (restricted_grid (contents h1 a) (filter_wavelength response))
                     (filter_wavelength response ! k)
                   = searchsorted (restricted_grid (contents h1 a) (filter_wavelength response))
                       (filter_wavelength response ! (k + 1)))
     \<and> (\<forall>k. 1 \<le> k \<and> k + 2 < length (filter_wavelength response)
          \<longrightarrow> (filter_wavelength response ! k \<in> set (interpolation_nodes c)
               \<longleftrightarrow> searchsorted (restricted_grid (contents h1 a) (filter_wavelength response))
                     (filter_wavelength response ! k)
                   = searchsorted (restricted_grid (contents h1 a) (filter_wavelength response))
                       (filter_wavelength response ! (k + 1))))"
proof -
  define rw where "rw = filter_wavelength response"
  define g where "g = restricted_grid (contents h1 a) rw"
  define Q where "Q = (\<lambda>k. searchsorted g (rw ! k) = searchsorted g (rw ! (k + 1)))"
  define ps where "ps = filter Q [1..<length rw - 1]"
  from inv have len: "3 \<le> length rw" and srt: "sorted_wrt (<) rw"
    by (simp_all add: filter_invariant_def rw_def)
  have pos: "undersampled_positions g rw = ps"
    using len by (simp add: undersampled_positions_eq ps_def Q_def)
  have fl: "list_ex (\<lambda>b. b) (undersampled_flags g rw) \<longleftrightarrow> ps \<noteq> []"
    by (simp add: flagged_iff pos)
  from FilterConvolution_init_covered[OF obj val inv cov, of ext pw True units]
  obtain c h' where ok: "FilterConvolution_init ext h response wavelength pw True units = (Inr c, h')"
    and iw: "interpolate_wavelength c = (if ps = [] then None else Some (map (\<lambda>i. rw ! i) ps))"
    by (auto simp add: rw_def[symmetric] g_def[symmetric] fl pos split: if_splits)
  have nodes: "interpolation_nodes c = map (\<lambda>i. rw ! i) ps"
    by (simp add: interpolation_nodes_def iw)
  have a1: "interior_collision g rw \<longrightarrow> interpolate_wavelength c \<noteq> None"
    using interior_collision_flagged[OF len, of g] fl iw by auto
  have a2: "interpolate_wavelength c \<noteq> None \<longrightarrow> interpolation_nodes c \<noteq> []"
    by (simp add: nodes iw)
  have a3: "\<forall>x \<in> set (interpolation_nodes c).
              \<exists>k. 1 \<le> k \<and> k + 1 < length rw \<and> x = rw ! k \<and> Q k"
    by (auto simp add: nodes ps_def)
  have a4: "rw ! k \<in> set (interpolation_nodes c) \<longleftrightarrow> Q k" if k: "1 \<le> k \<and> k + 2 < length rw" for k
  proof
    assume "rw ! k \<in> set (interpolation_nodes c)"
    then obtain j where j: "j \<in> set ps" "rw ! j = rw ! k" by (auto simp add: nodes)
    then have "j < length rw" "Q j" by (auto simp add: ps_def)
    with srt k j(2) have "j = k" by (intro strictly_increasing_nth_eq[of rw]) auto
    with \<open>Q j\<close> show "Q k" by simp
  next
    assume "Q k"
    with k have "k \<in> set ps" by (auto simp add: ps_def)
    then show "rw ! k \<in> set (interpolation_nodes c)" by (auto simp add: nodes)
  qed
  from ok a1 a2 a3 a4 show ?thesis
    unfolding rw_def[symmetric] g_def[symmetric] Q_def by blast
qed

theorem interpolation_nodes_all_but_last_witness:
  "object_in_store [] (PyList [5000, 6600, 7000])
   \<and> validate_wavelength_array [] (PyList [5000, 6600, 7000]) 2
       = (Inr \<lparr>buf = 0, offset = 0, shape = [3]\<rparr>, [[5000, 6600, 7000]])
   \<and> filter_invariant plateau_filter
   \<and> \<not> extrapolation_required [5000, 6600, 7000] (filter_wavelength plateau_filter)
   \<and> (\<exists>c h'. FilterConvolution_init example_externals [] plateau_filter
                (PyList [5000, 6600, 7000]) False True None = (Inr c, h')
          \<and> interpolate_wavelength c \<noteq> None
          \<and> 6000 \<in> set (interpolation_nodes c))"
proof -
  have o: "object_in_store [] (PyList [5000, 6600, 7000])" by simp
  have v: "validate_wavelength_array [] (PyList [5000, 6600, 7000]) 2
       = (Inr \<lparr>buf = 0, offset = 0, shape = [3]\<rparr>, [[5000, 6600, 7000]])"
    by (simp add: validate_wavelength_array_def contents_def diff_def)
  have c: "\<not> extrapolation_required
              (contents [[5000, 6600, 7000]] \<lparr>buf = 0, offset = 0, shape = [3]\<rparr>)
              (filter_wavelength plateau_filter)"
    by (simp add: extrapolation_required_def contents_def plateau_filter_def)
  have g: "restricted_grid (contents [[5000, 6600, 7000]] \<lparr>buf = 0, offset = 0, shape = [3]\<rparr>)
             (filter_wavelength plateau_filter) = [5000, 6600, 7000]"
    by (simp add: restricted_grid_def smallest_slice_def where_true_def contents_def
        plateau_filter_def)
  have u: "interior_collision [5000, 6600, 7000] (filter_wavelength plateau_filter)"
    by (simp add: interior_collision_def searchsorted_def plateau_filter_def)
  from interpolation_nodes_all_but_last[OF o v plateau_filter_invariant c,
      of example_externals False None]
  obtain cv h' where r: "FilterConvolution_init example_externals [] plateau_filter
                (PyList [5000, 6600, 7000]) False True None = (Inr cv, h')"
    "interior_collision [5000, 6600, 7000] (filter_wavelength plateau_filter)
        \<longrightarrow> interpolate_wavelength cv \<noteq> None"
    "\<forall>k. 1 \<le> k \<and> k + 2 < length (filter_wavelength plateau_filter)
          \<longrightarrow> (filter_wavelength plateau_filter ! k \<in> set (interpolation_nodes cv)
               \<longleftrightarrow> searchsorted [5000, 6600, 7000] (filter_wavelength plateau_filter ! k)
                   = searchsorted [5000, 6600, 7000] (filter_wavelength plateau_filter ! (k + 1)))"
    unfolding g by blast
  from r(2) u have n: "interpolate_wavelength cv \<noteq> None" by simp
  from r(3)[rule_format, of 1] have "6000 \<in> set (interpolation_nodes cv)"
    by (simp add: plateau_filter_def searchsorted_def)
  with r(1) n o v c plateau_filter_invariant show ?thesis by (auto simp add: contents_def)
qed

text \<open>
  C1 as stated fails: with filter wavelengths 5000, 6000, 6500, 7000 and the grid 5000,
  6600, 7000 the interior wavelengths 6000 and 6500 collide. The code interpolates at
  6000, the first of the run; all but the first would be 6500.
\<close>

theorem interpolation_nodes_not_all_but_first:
  "map_sum id interpolate_wavelength
     (fst (FilterConvolution_init example_externals [] plateau_filter (PyList [5000, 6600, 7000])
        False True None))
   = Inr (Some [6000])
   \<and> all_but_first_of_runs (restricted_grid [5000, 6600, 7000] (filter_wavelength plateau_filter))
       (filter_wavelength plateau_filter) = [6500]"
  by (simp add: init_defs plateau_filter_def example_externals_def all_but_first_of_runs_def
      restricted_grid_def)

text \<open>
  C2. Evaluating a plan twice with the same values is claimed to give the same result.
  For values with a unit that converts with a factor other than one it does not: line
  1198 multiplies the factor in place into a slice of \<^verbatim>\<open>np.asarray(values)\<close>, which
  shares the caller's buffer. Here the caller's Quantity holds 10, 10, 10 per nanometer
  (buffer 0; buffer 1 is the grid of \<open>triangle_plan\<close>). The first evaluation returns
  1000 and leaves 1, 1, 1 in the caller's buffer; the second, with the same object,
  returns 100.
\<close>

theorem repeated_evaluation_differs:
  "FilterConvolution_call example_externals [[10, 10, 10], [5000, 6000, 7000]] triangle_plan
     (Quantity \<lparr>buf = 0, offset = 0, shape = [3]\<rparr> flux_per_nanometer) ''trapz''
   = (Inr (Qty 1000 (unit_mul default_flux_unit default_wavelength_unit)),
      [[1, 1, 1], [5000, 6000, 7000]])
   \<and> FilterConvolution_call example_externals [[1, 1, 1], [5000, 6000, 7000]] triangle_plan
       (Quantity \<lparr>buf = 0, offset = 0, shape = [3]\<rparr> flux_per_nanometer) ''trapz''
     = (Inr (Qty 100 (unit_mul default_flux_unit default_wavelength_unit)),
        [[1 / 10, 1 / 10, 1 / 10], [5000, 6000, 7000]])"
  by (simp add: FilterConvolution_call_def triangle_plan_def filter_integration_methods_def
      trapz_def imul_def store_def contents_def diff_def unit_defs)

text \<open>
  C3. \<^verbatim>\<open>validate_wavelength_array\<close> is claimed never to modify the caller's array. For
  a Quantity whose unit is not the default one it does: the conversion factor is
  multiplied in place into an array that shares the Quantity's buffer. Here the
  caller's Quantity of 500, 600, 700 nm holds 5000, 6000, 7000 afterwards. (The
  returned values are the input's in Angstrom, as claimed.)
\<close>

theorem validate_wavelength_array_modifies_quantity:
  "validate_wavelength_array [[500, 600, 700]]
     (Quantity \<lparr>buf = 0, offset = 0, shape = [3]\<rparr> nanometer) 2
   = (Inr \<lparr>buf = 0, offset = 0, shape = [3]\<rparr>, [[5000, 6000, 7000]])"
  by (simp add: validate_wavelength_array_def unit_defs imul_def store_def contents_def diff_def)

text \<open>
  C4, as amended. The input is validated and covers the filter, two consecutive
  interior wavelengths of the filter have the same insertion position in the restricted
  grid, and interpolation is not allowed. Then the construction fails and gives no plan.
  The error is a \<open>ValueError\<close>, the class of the validation errors; only its message says
  that the grid undersamples the response.
\<close>

theorem undersampling_fails_with_ValueError:
  assumes obj: "object_in_store h wavelength"
    and val: "validate_wavelength_array h wavelength 2 = (Inr a, h1)"
    and inv: "filter_invariant response"
    and cov: "\<not> extrapolation_required (contents h1 a) (filter_wavelength response)"
    and und: "interior_collision
                (restricted_grid (contents h1 a) (filter_wavelength response))
                (filter_wavelength response)"
  shows "FilterConvolution_init ext h response wavelength pw False units
         = (Inl (ValueError, Undersample_and_interpolate_is_False), h1)"
proof -
  from inv have "3 \<le> length (filter_wavelength response)" by (simp add: filter_invariant_def)
  from interior_collision_flagged[OF this und]
  have "list_ex (\<lambda>b. b)
          (undersampled_flags (restricted_grid (contents h1 a) (filter_wavelength response))
             (filter_wavelength response))" .
  with FilterConvolution_init_covered[OF obj val inv cov, of ext pw False units]
  show ?thesis by auto
qed

theorem undersampling_fails_with_ValueError_witness:
  "object_in_store [] (PyList [5000, 7000])
   \<and> validate_wavelength_array [] (PyList [5000, 7000]) 2
       = (Inr \<lparr>buf = 0, offset = 0, shape = [2]\<rparr>, [[5000, 7000]])
   \<and> filter_invariant plateau_filter
   \<and> \<not> extrapolation_required [5000, 7000] (filter_wavelength plateau_filter)
   \<and> interior_collision (restricted_grid [5000, 7000] (filter_wavelength plateau_filter))
        (filter_wavelength plateau_filter)
   \<and> FilterConvolution_init example_externals [] plateau_filter (PyList [5000, 7000]) True False
        (Some default_flux_unit)
       = (Inl (ValueError, Undersample_and_interpolate_is_False), [[5000, 7000]])"
proof -
  have o: "object_in_store [] (PyList [5000, 7000])" by simp
  have v: "validate_wavelength_array [] (PyList [5000, 7000]) 2
       = (Inr \<lparr>buf = 0, offset = 0, shape = [2]\<rparr>, [[5000, 7000]])"
    by (simp add: validate_wavelength_array_def contents_def diff_def)
  have c: "\<not> extrapolation_required (contents [[5000, 7000]] \<lparr>buf = 0, offset = 0, shape = [2]\<rparr>)
              (filter_wavelength plateau_filter)"
    by (simp add: extrapolation_required_def contents_def plateau_filter_def)
  have u: "interior_collision
             (restricted_grid (contents [[5000, 7000]] \<lparr>buf = 0, offset = 0, shape = [2]\<rparr>)
                (filter_wavelength plateau_filter))
             (filter_wavelength plateau_filter)"
    by (simp add: interior_collision_def restricted_grid_def smallest_slice_def where_true_def
        searchsorted_def contents_def plateau_filter_def)
  from undersampling_fails_with_ValueError[OF o v plateau_filter_invariant c u,
      of example_externals True "Some default_flux_unit"]
  show ?thesis using o v c u plateau_filter_invariant by (simp add: contents_def)
qed

text \<open>
  C4 as stated fails: the undersampling error is not of a kind of its own. Here it and
  the coverage error of a grid that starts too late are both \<open>ValueError\<close>.
\<close>

theorem undersampling_error_not_distinct:
  "FilterConvolution_init example_externals [] plateau_filter (PyList [5000, 7000]) False False None
     = (Inl (ValueError, Undersample_and_interpolate_is_False), [[5000, 7000]])
   \<and> interior_collision (restricted_grid [5000, 7000] (filter_wavelength plateau_filter))
        (filter_wavelength plateau_filter)
   \<and> FilterConvolution_init example_externals [] plateau_filter (PyList [5500, 7000]) False False None
     = (Inl (ValueError, Do_not_cover_filter_response 5000 7000), [[5500, 7000]])"
  by (simp add: init_defs plateau_filter_def example_externals_def interior_collision_def
      restricted_grid_def)

text \<open>
  C5. Given a validated input grid (at least two increasing wavelengths), the
  construction of a \<open>FilterConvolution\<close> fails with the coverage error exactly when
  the grid does not reach from the filter's first wavelength to its last. A grid whose
  first and last wavelengths equal the filter's is accepted: the construction gives a
  plan, or (without interpolation only) fails later with the undersampling error.
\<close>

theorem coverage_check:
  assumes obj: "object_in_store h wavelength"
    and val: "validate_wavelength_array h wavelength 2 = (Inr a, h1)"
    and inv: "filter_invariant response"
  shows "(fst (FilterConvolution_init ext h response wavelength pw interp units)
            = Inl (ValueError, Do_not_cover_filter_response (hd (filter_wavelength response))
                     (last (filter_wavelength response)))
          \<longleftrightarrow> \<not> (hd (contents h1 a) \<le> hd (filter_wavelength response)
                 \<and> last (filter_wavelength response) \<le> last (contents h1 a)))
       \<and> (hd (contents h1 a) = hd (filter_wavelength response)
            \<and> last (contents h1 a) = last (filter_wavelength response)
          \<longrightarrow> (\<exists>c. fst (FilterConvolution_init ext h response wavelength pw interp units) = Inr c)
              \<or> (\<not> interp
                  \<and> fst (FilterConvolution_init ext h response wavelength pw interp units)
                      = Inl (ValueError, Undersample_and_interpolate_is_False)))"
proof (cases "extrapolation_required (contents h1 a) (filter_wavelength response)")
  case True
  then have "fst (FilterConvolution_init ext h response wavelength pw interp units)
            = Inl (ValueError, Do_not_cover_filter_response (hd (filter_wavelength response))
                     (last (filter_wavelength response)))"
    by (simp add: FilterConvolution_init_def val Let_def)
  with True show ?thesis by (auto simp add: extrapolation_required_def)
next
  case False
  from FilterConvolution_init_covered[OF obj val inv False, of ext pw interp units]
  have "(\<exists>c. fst (FilterConvolution_init ext h response wavelength pw interp units) = Inr c)
              \<or> (\<not> interp
                  \<and> fst (FilterConvolution_init ext h response wavelength pw interp units)
                      = Inl (ValueError, Undersample_and_interpolate_is_False))"
    by (auto split: if_splits)
  with False show ?thesis by (auto simp add: extrapolation_required_def)
qed

theorem coverage_check_witness:
  "object_in_store [] (PyList [5000, 7000])
   \<and> validate_wavelength_array [] (PyList [5000, 7000]) 2
       = (Inr \<lparr>buf = 0, offset = 0, shape = [2]\<rparr>, [[5000, 7000]])
   \<and> filter_invariant triangle_filter
   \<and> (\<exists>c. fst (FilterConvolution_init example_externals [] triangle_filter
               (PyList [5000, 7000]) False True None) = Inr c)"
proof -
  have o: "object_in_store [] (PyList [5000, 7000])" by simp
  have v: "validate_wavelength_array [] (PyList [5000, 7000]) 2
       = (Inr \<lparr>buf = 0, offset = 0, shape = [2]\<rparr>, [[5000, 7000]])"
    by (simp add: validate_wavelength_array_def contents_def diff_def)
  from coverage_check[OF o v triangle_filter_invariant, of example_externals False True None]
  have "\<exists>c. fst (FilterConvolution_init example_externals [] triangle_filter
               (PyList [5000, 7000]) False True None) = Inr c"
    by (simp add: contents_def triangle_filter_def)
  with o v triangle_filter_invariant show ?thesis by simp
qed

text \<open>
  C6. For wavelengths that pass the validation with at least three entries, a response
  of the same length that is nowhere negative, not zero everywhere and zero at both
  ends, and metadata with the two required names, the constructor succeeds. The stored
  response and wavelengths are the same stretch of the two inputs; what is left out in
  front of it and behind it has response zero. The stored response starts with exactly
  one zero (the next value is positive) and ends with exactly one zero (the value
  before it is positive).
\<close>

theorem trimmed_to_one_zero_per_edge:
  assumes val: "validate_wavelength_array h wavelength 3 = (Inr a, h1)"
    and len: "length (contents h1 a) = length response"
    and nn: "list_all (\<lambda>r. 0 \<le> r) response"
    and nz: "\<not> list_all (\<lambda>r. r = 0) response"
    and ends: "hd response = 0" "last response = 0"
    and meta: "check_required m ''group_name'' = None" "check_required m ''band_name'' = None"
  shows "\<exists>self k n. FilterResponse_init ext h wavelength response (Dict m) = (Inr self, h1)
      \<and> filter_response self = take n (drop k response)
      \<and> filter_wavelength self = take n (drop k (contents h1 a))
      \<and> 3 \<le> n \<and> k + n \<le> length response
      \<and> list_all (\<lambda>r. r = 0) (take k response)
      \<and> list_all (\<lambda>r. r = 0) (drop (k + n) response)
      \<and> hd (filter_response self) = 0 \<and> 0 < filter_response self ! 1
      \<and> last (filter_response self) = 0 \<and> 0 < filter_response self ! (n - 2)"
proof -
  from trim_bounds_valid[OF nn nz ends] obtain p q
    where tb: "trim_bounds response = Inr (int p - 1, int q + 2)"
      and pq: "1 \<le> p" "p \<le> q" "q + 2 \<le> length response"
      and pos: "0 < response ! p" "0 < response ! q"
      and before: "\<forall>i < p. response ! i = 0"
      and after: "\<forall>i. q < i \<and> i < length response \<longrightarrow> response ! i = 0"
    by blast
  define k where "k = p - 1"
  define n where "n = q + 3 - p"
  define resp where "resp = take n (drop k response)"
  define wl where "wl = take n (drop k (contents h1 a))"
  have tr: "trim (int p - 1, int q + 2) response = resp"
    using pq by (simp add: trim_eq resp_def n_def k_def)
  have tw: "trim (int p - 1, int q + 2) (contents h1 a) = wl"
    using pq len by (simp add: trim_eq wl_def n_def k_def)
  have kn: "3 \<le> n" "k + n \<le> length response" "k + n = q + 2" "k + 1 = p"
    using pq by (simp_all add: n_def k_def)
  have lr: "length resp = n" using kn by (simp add: resp_def)
  have lw: "length wl = n" using kn len by (simp add: wl_def)
  from finish_FilterResponse_succeeds[of resp wl m ext] lr lw meta
  obtain self where fin: "finish_FilterResponse ext wl resp (Dict m) = Inr self" by auto
  from finish_FilterResponse_fields[OF fin]
  have fields: "filter_wavelength self = wl" "filter_response self = resp" by simp_all
  have neg: "\<not> list_ex (\<lambda>r. r < 0) response"
    using nn by (auto simp add: list_all_iff list_ex_iff)
  have init: "FilterResponse_init ext h wavelength response (Dict m) = (Inr self, h1)"
    using val len neg nz ends tb tr tw fin
    by (simp add: FilterResponse_init_def Let_def)
  have rne: "resp \<noteq> []" using lr kn by auto
  have nth: "resp ! i = response ! (k + i)" if "i < n" for i
    using that kn by (simp add: resp_def)
  have z1: "list_all (\<lambda>r. r = 0) (take k response)"
    using before kn by (auto simp add: list_all_length)
  have z2: "list_all (\<lambda>r. r = 0) (drop (k + n) response)"
    using after kn by (auto simp add: list_all_length)
  have e1: "hd resp = 0"
    using nth[of 0] kn before rne by (simp add: hd_conv_nth)
  have e2: "0 < resp ! 1"
    using nth[of 1] kn pos by simp
  have e3: "last resp = 0"
  proof -
    have "last resp = response ! (k + (n - 1))" using nth[of "n - 1"] kn rne lr
      by (simp add: last_conv_nth)
    moreover have "k + (n - 1) = q + 1" using kn by arith
    ultimately show ?thesis using after kn by simp
  qed
  have e4: "0 < resp ! (n - 2)"
  proof -
    have "k + (n - 2) = q" using kn by arith
    with nth[of "n - 2"] kn pos show ?thesis by simp
  qed
  from init fields z1 z2 e1 e2 e3 e4 kn show ?thesis
    unfolding resp_def[symmetric] wl_def[symmetric]
    by (intro exI[of _ self] exI[of _ k] exI[of _ n]) (simp add: resp_def wl_def)
qed

theorem trimmed_to_one_zero_per_edge_witness:
  "validate_wavelength_array [] (PyList [4000, 5000, 6000, 6500, 7000, 7500]) 3
     = (Inr \<lparr>buf = 0, offset = 0, shape = [6]\<rparr>, [[4000, 5000, 6000, 6500, 7000, 7500]])
   \<and> list_all (\<lambda>r. 0 \<le> r) [0, 0, 1, 1, 0, 0 :: real]
   \<and> \<not> list_all (\<lambda>r. r = 0) [0, 0, 1, 1, 0, 0 :: real]
   \<and> check_required [(''group_name'', MStr ''example''), (''band_name'', MStr ''r'')]
        ''group_name'' = None
   \<and> check_required [(''group_name'', MStr ''example''), (''band_name'', MStr ''r'')]
        ''band_name'' = None
   \<and> (\<exists>self. FilterResponse_init example_externals []
                (PyList [4000, 5000, 6000, 6500, 7000, 7500]) [0, 0, 1, 1, 0, 0] example_meta
              = (Inr self, [[4000, 5000, 6000, 6500, 7000, 7500]])
          \<and> hd (filter_response self) = 0 \<and> 0 < filter_response self ! 1
          \<and> last (filter_response self) = 0)"
proof -
  have v: "validate_wavelength_array [] (PyList [4000, 5000, 6000, 6500, 7000, 7500]) 3
     = (Inr \<lparr>buf = 0, offset = 0, shape = [6]\<rparr>, [[4000, 5000, 6000, 6500, 7000, 7500]])"
    by (simp add: validate_wavelength_array_def contents_def diff_def)
  have l: "length (contents [[4000, 5000, 6000, 6500, 7000, 7500]]
                     \<lparr>buf = 0, offset = 0, shape = [6]\<rparr>)
           = length [0, 0, 1, 1, 0, 0 :: real]"
    by (simp add: contents_def)
  have nn: "list_all (\<lambda>r. 0 \<le> r) [0, 0, 1, 1, 0, 0 :: real]" by simp
  have nz: "\<not> list_all (\<lambda>r. r = 0) [0, 0, 1, 1, 0, 0 :: real]" by simp
  have e: "hd [0, 0, 1, 1, 0, 0 :: real] = 0" "last [0, 0, 1, 1, 0, 0 :: real] = 0" by simp_all
  have m: "check_required [(''group_name'', MStr ''example''), (''band_name'', MStr ''r'')]
        ''group_name'' = None"
    "check_required [(''group_name'', MStr ''example''), (''band_name'', MStr ''r'')]
        ''band_name'' = None"
    by (simp_all add: check_required_def name_pattern_match_def is_letter_def is_digit_def)
  from trimmed_to_one_zero_per_edge[OF v l nn nz e m, of example_externals]
  have "\<exists>self. FilterResponse_init example_externals []
                (PyList [4000, 5000, 6000, 6500, 7000, 7500]) [0, 0, 1, 1, 0, 0] example_meta
              = (Inr self, [[4000, 5000, 6000, 6500, 7000, 7500]])
          \<and> hd (filter_response self) = 0 \<and> 0 < filter_response self ! 1
          \<and> last (filter_response self) = 0"
    unfolding example_meta_def by blast
  with v nn nz m show ?thesis by blast
qed



text \<open>
  C8. A wavelength below the filter's first stored wavelength or above its last has
  response exactly 0, and so has every entry of an array of such wavelengths; with a
  unit, the wavelength is compared after conversion to the default unit.
\<close>

theorem zero_outside_range:
  assumes "conversion_factor u = Some c"
  shows "(w * c < hd (filter_wavelength self) \<or> last (filter_wavelength self) < w * c
            \<longrightarrow> FilterResponse_call self (Scalar w, u) = Inr (Scalar 0))
       \<and> (list_all (\<lambda>w. w * c < hd (filter_wavelength self)
                          \<or> last (filter_wavelength self) < w * c) ws
            \<longrightarrow> FilterResponse_call self (Array ws, u) = Inr (Array (map (\<lambda>w. 0) ws)))"
proof -
  from assms have f: "(case u of None \<Rightarrow> Inr 1
              | Some v \<Rightarrow> (case unit_to v default_wavelength_unit of
                   None \<Rightarrow> Inl (UnitConversionError, Not_convertible)
                 | Some c \<Rightarrow> Inr c)) = Inr c"
    by (auto simp add: conversion_factor_def split: option.splits)
  have "list_all (\<lambda>w. w * c < hd (filter_wavelength self)
                          \<or> last (filter_wavelength self) < w * c) ws
        \<Longrightarrow> map (\<lambda>w. if w < hd (filter_wavelength self) \<or> last (filter_wavelength self) < w then 0
                       else linear_segment (filter_wavelength self) (filter_response self) w)
              (map (\<lambda>w. w * c) ws) = map (\<lambda>w. 0) ws"
    by (induction ws) auto
  then show ?thesis
    by (auto simp add: FilterResponse_call_def f interpolator_def interp1d_def interp1d_array_fill)
qed

theorem zero_outside_range_witness:
  "conversion_factor (Some nanometer) = Some 10
   \<and> FilterResponse_call triangle_filter (Scalar 499, Some nanometer) = Inr (Scalar 0)
   \<and> FilterResponse_call triangle_filter (Array [499, 701, 800], Some nanometer)
       = Inr (Array [0, 0, 0])"
proof -
  have f: "conversion_factor (Some nanometer) = Some 10"
    by (simp add: conversion_factor_def unit_defs)
  from zero_outside_range[OF f, of 499 triangle_filter "[499, 701, 800]"]
  show ?thesis using f by (simp add: triangle_filter_def)
qed

text \<open>
  C9. For the filter constructed from the wavelengths 5000, 6000, 7000 and the response
  0, 1, 0, the unweighted convolution with the constant function 1 by the trapezoid
  rule is 1000, a plain number. (All intermediate values, 1000, 1 and 500, are integers.)
\<close>

theorem triangle_area:
  assumes "FilterResponse_init ext h (PyList [5000, 6000, 7000]) [0, 1, 0] meta = (Inr self, h')"
  shows "convolve_with_function ext self (constant_function 1) False None ''trapz''
         = Inr (Plain 1000)"
proof -
  from assms have "finish_FilterResponse ext [5000, 6000, 7000] [0, 1, 0] meta = Inr self"
    by (simp add: FilterResponse_init_def validate_wavelength_array_def contents_def diff_def
        trim_bounds_def where_true_def trim_def)
  then have "filter_wavelength self = [5000, 6000, 7000] \<and> filter_response self = [0, 1, 0]"
    by (auto simp add: finish_FilterResponse_def Let_def split: pymeta.splits option.splits sum.splits)
  then show ?thesis
    by (simp add: convolve_with_function_def filter_integration_methods_def
        tabulate_function_of_wavelength_def constant_function_def unit_defs multiply_into_def
        trapz_def diff_def)
qed

theorem triangle_area_witness:
  "FilterResponse_init example_externals [] (PyList [5000, 6000, 7000]) [0, 1, 0] example_meta
     = (Inr triangle_filter, [[5000, 6000, 7000]])
   \<and> convolve_with_function example_externals triangle_filter (constant_function 1) False None
       ''trapz'' = Inr (Plain 1000)"
  using triangle_area[OF triangle_filter_constructed] triangle_filter_constructed by simp



end
